theory Spec2Isabelle
  imports Complex_Main
begin

section \<open>Rainfall simulation of rwgen: discretisation and block sizing\<close>

text \<open>
  A shallow embedding of \<^verbatim>\<open>src/rwgen/rainfall/simulation.py\<close>. Floating-point
  numbers are read as real numbers, Python integers as \<open>int\<close>, one-dimensional NumPy
  arrays as lists, and a two-dimensional array as the list of its rows. A function that
  modifies an array in place returns the modified array. Every exception the source can
  raise in the modelled code is a value of \<open>error\<close>, returned as \<open>Inl\<close>.

  \<open>OutOfBounds\<close> is not an exception. The two kernels are compiled without bounds
  checking, so an index outside its array raises nothing: the access falls outside the
  buffer, and what the program does from there on is not defined. The model stops at
  that point with \<open>OutOfBounds\<close>; nothing is claimed about such a run.
\<close>

datatype error =
  TypeError | IndexError | KeyError | ValueError | ZeroDivisionError | UnboundLocalError
  | MemoryError | OtherError | OutOfBounds

text \<open>Sequencing of steps that may raise: the first error ends the computation.\<close>

definition bind_err :: "error + 'a \<Rightarrow> ('a \<Rightarrow> error + 'b) \<Rightarrow> error + 'b" where
  "bind_err m f = (case m of Inl e \<Rightarrow> Inl e | Inr x \<Rightarrow> f x)"

text \<open>A \<^verbatim>\<open>for\<close> loop over \<open>items\<close> whose body may raise.\<close>

fun for_each :: "('i \<Rightarrow> 's \<Rightarrow> error + 's) \<Rightarrow> 'i list \<Rightarrow> 's \<Rightarrow> error + 's" where
  "for_each body [] s = Inr s"
| "for_each body (i # items) s = bind_err (body i s) (for_each body items)"

subsection \<open>The point discretisation kernel (\<^verbatim>\<open>discretise_point\<close>, lines 628--657)\<close>

text \<open>
  \<^verbatim>\<open>discrete_rainfall[timestep] += v\<close>, guarded in the source only by
  \<^verbatim>\<open>timestep < discrete_rainfall.shape[0]\<close>. An index \<open>t\<close> with \<open>- n \<le> t < 0\<close>
  addresses element \<open>n + t\<close> (indices count from the end, in NumPy and in Numba alike).
  Below \<open>- n\<close> the write of the compiled kernel falls outside the buffer.
\<close>

definition accumulate :: "real list \<Rightarrow> int \<Rightarrow> real \<Rightarrow> error + real list" where
  "accumulate discrete_rainfall timestep v =
     (let n = int (length discrete_rainfall) in
      if timestep < n then
        (if 0 \<le> timestep then
           Inr (discrete_rainfall[nat timestep := discrete_rainfall ! nat timestep + v])
         else if - n \<le> timestep then
           Inr (discrete_rainfall[nat (n + timestep) := discrete_rainfall ! nat (n + timestep) + v])
         else Inl OutOfBounds)
      else Inr discrete_rainfall)"

text \<open>
  The inner loop, lines 649--657, over the timesteps of \<^verbatim>\<open>range(rc_arrival_timestep,
  rc_end_timestep+1)\<close>, given as a list.
\<close>

fun timestep_loop ::
  "real \<Rightarrow> real \<Rightarrow> real \<Rightarrow> real \<Rightarrow> int list \<Rightarrow> real list \<Rightarrow> error + real list" where
  "timestep_loop timestep_length rc_arrival_time rc_end_time rc_intensity [] discrete_rainfall =
     Inr discrete_rainfall"
| "timestep_loop timestep_length rc_arrival_time rc_end_time rc_intensity (timestep # rest)
     discrete_rainfall =
     (let timestep_start_time = of_int timestep * timestep_length;
          timestep_end_time = (of_int timestep + 1) * timestep_length;
          effective_start = max rc_arrival_time timestep_start_time;
          effective_end = min rc_end_time timestep_end_time;
          timestep_coverage = effective_end - effective_start
      in case accumulate discrete_rainfall timestep (rc_intensity * timestep_coverage) of
           Inl e \<Rightarrow> Inl e
         | Inr d \<Rightarrow> timestep_loop timestep_length rc_arrival_time rc_end_time rc_intensity rest d)"

text \<open>
  The body of the outer loop for one raincell, lines 639--657. Division by a zero
  timestep length raises ZeroDivisionError (Numba's default error model).
\<close>

definition discretise_raincell ::
  "real \<Rightarrow> real \<Rightarrow> real \<Rightarrow> real \<Rightarrow> real \<Rightarrow> real list \<Rightarrow> error + real list" where
  "discretise_raincell period_start_time timestep_length arrival_time ending_time intensity
     discrete_rainfall =
     (let rc_arrival_time = arrival_time - period_start_time;
          rc_end_time = ending_time - period_start_time;
          rc_intensity = intensity
      in if timestep_length = 0 then Inl ZeroDivisionError
         else
           (let rc_arrival_timestep = \<lfloor>rc_arrival_time / timestep_length\<rfloor>;
                rc_end_timestep = \<lfloor>rc_end_time / timestep_length\<rfloor>
            in timestep_loop timestep_length rc_arrival_time rc_end_time rc_intensity
                 [rc_arrival_timestep .. rc_end_timestep] discrete_rainfall))"

text \<open>
  The outer loop, lines 637--657: \<open>idx\<close> runs over the arrival times, and reads the end
  times and intensities at the same index, which is outside them when one is shorter.
\<close>

fun raincell_loop ::
  "real \<Rightarrow> real \<Rightarrow> real list \<Rightarrow> real list \<Rightarrow> real list \<Rightarrow> real list \<Rightarrow> error + real list" where
  "raincell_loop period_start_time timestep_length [] ends intensities discrete_rainfall =
     Inr discrete_rainfall"
| "raincell_loop period_start_time timestep_length (a # arrivals) (e # ends) (i # intensities)
     discrete_rainfall =
     (case discretise_raincell period_start_time timestep_length a e i discrete_rainfall of
        Inl err \<Rightarrow> Inl err
      | Inr d \<Rightarrow> raincell_loop period_start_time timestep_length arrivals ends intensities d)"
| "raincell_loop period_start_time timestep_length (a # arrivals) ends intensities
     discrete_rainfall = Inl OutOfBounds"

text \<open>\<^verbatim>\<open>discretise_point\<close>: the output array is zeroed, then every raincell is added.\<close>

definition discretise_point ::
  "real \<Rightarrow> real \<Rightarrow> real list \<Rightarrow> real list \<Rightarrow> real list \<Rightarrow> real list \<Rightarrow> error + real list" where
  "discretise_point period_start_time timestep_length raincell_arrival_times raincell_end_times
     raincell_intensities discrete_rainfall =
     raincell_loop period_start_time timestep_length raincell_arrival_times raincell_end_times
       raincell_intensities (replicate (length discrete_rainfall) 0)"



subsection \<open>The month loop of \<^verbatim>\<open>discretise_by_point\<close>, non-spatial path (lines 528--625)\<close>

text \<open>
  A positional argument of a call to a kernel: a floating-point number, a
  one-dimensional array or a two-dimensional array.
\<close>

datatype pyval = Float real | Array "real list" | Matrix "real list list"

text \<open>
  A call \<^verbatim>\<open>discretise_point(...)\<close> with positional arguments. The function is declared
  with six parameters (lines 629--632): period start time, timestep length, arrival
  times, end times, intensities, output array. A call with another number of arguments
  raises TypeError before the body runs.
\<close>

definition discretise_point_call :: "pyval list \<Rightarrow> error + real list" where
  "discretise_point_call args =
     (if length args \<noteq> 6 then Inl TypeError
      else case (args ! 0, args ! 1, args ! 2, args ! 3, args ! 4, args ! 5) of
             (Float period_start_time, Float timestep_length, Array raincell_arrival_times,
              Array raincell_end_times, Array raincell_intensities, Array discrete_rainfall) \<Rightarrow>
               discretise_point period_start_time timestep_length raincell_arrival_times
                 raincell_end_times raincell_intensities discrete_rainfall
           | _ \<Rightarrow> Inl TypeError)"

text \<open>
  A row of \<^verbatim>\<open>datetime_helper\<close> (lines 419--427): one month, with its number of timesteps
  and its start and end times in hours. A row of the raincell table \<^verbatim>\<open>df\<close> of a
  non-spatial model.
\<close>

record month_row =
  year :: int
  month :: int
  n_timesteps :: nat
  start_time :: real
  end_time :: real

definition n_hours :: "month_row \<Rightarrow> real" where
  "n_hours row = end_time row - start_time row"

record raincell =
  raincell_arrival :: real
  raincell_end :: real
  raincell_intensity :: real

text \<open>
  \<^verbatim>\<open>datetime_helper['start_time'][month_idx]\<close> reads a column by index label. The rows
  handed over are the slice \<^verbatim>\<open>datetime_helper.iloc[idx1:idx2]\<close>, which keeps the labels
  of the whole table: they start at \<open>first_label = idx1\<close>. A label outside the slice is a
  KeyError.
\<close>

definition by_label :: "nat \<Rightarrow> month_row list \<Rightarrow> nat \<Rightarrow> error + month_row" where
  "by_label first_label rows label =
     (if first_label \<le> label \<and> label < first_label + length rows
      then Inr (rows ! (label - first_label)) else Inl KeyError)"

text \<open>
  One iteration of the month loop for a non-spatial model with output type
  \<^verbatim>\<open>point\<close>: the temporal subset (lines 544--549), the call of the kernel as written at
  lines 576--579, with seven arguments, and the staging of the month's output (lines
  582--622). \<open>buffer\<close> is \<^verbatim>\<open>discrete_rainfall['point'][:, 0]\<close>. \<open>timesteps_in_month\<close>, the
  number of rows of \<^verbatim>\<open>datetimes\<close> for the month's year and month (read by position), is
  the \<open>n_timesteps\<close> of that row, which was counted from the same table. The conversion to
  half precision is not modelled.
\<close>

definition discretise_month ::
  "nat \<Rightarrow> month_row list \<Rightarrow> real \<Rightarrow> raincell list \<Rightarrow> nat \<Rightarrow> real list \<times> real list
     \<Rightarrow> error + real list \<times> real list" where
  "discretise_month first_label datetime_helper timestep_length df month_idx state =
     (case state of (buffer, output_arrays) \<Rightarrow>
        bind_err (by_label first_label datetime_helper month_idx) (\<lambda>labelled.
          let temporal_mask =
                (\<lambda>rc. raincell_arrival rc < end_time labelled
                        \<and> raincell_end rc > start_time labelled);
              raincell_arrival_times = map raincell_arrival (filter temporal_mask df);
              raincell_end_times = map raincell_end (filter temporal_mask df);
              raincell_intensities = map raincell_intensity (filter temporal_mask df)
          in bind_err
               (discretise_point_call
                  [Float (start_time labelled), Float (end_time labelled),
                   Float timestep_length, Array raincell_arrival_times,
                   Array raincell_end_times, Array raincell_intensities, Array buffer])
               (\<lambda>buffer'.
                  let timesteps_in_month = n_timesteps (datetime_helper ! month_idx);
                      output_array = take timesteps_in_month buffer'
                  in Inr (buffer',
                          if month_idx = 0 then output_array
                          else output_arrays @ output_array))))"

text \<open>
  \<^verbatim>\<open>discretise_by_point\<close> for a non-spatial model and output type \<^verbatim>\<open>point\<close>. The result
  is the one entry of \<^verbatim>\<open>output_arrays\<close>, under the key (output type, location id,
  realisation id), which is handed to the output writer, together with the buffer.
\<close>

definition discretise_by_point ::
  "nat \<Rightarrow> month_row list \<Rightarrow> raincell list \<Rightarrow> real \<Rightarrow> real list \<Rightarrow> int
     \<Rightarrow> error + real list \<times> (string \<times> int \<times> int) \<times> real list" where
  "discretise_by_point first_label datetime_helper df timestep_length buffer realisation_id =
     bind_err
       (for_each (discretise_month first_label datetime_helper timestep_length df)
          [0..<length datetime_helper] (buffer, []))
       (\<lambda>(buffer', output_arrays).
          Inr (buffer', (''point'', 1, realisation_id), output_arrays))"

subsection \<open>The spatial discretisation kernel (\<^verbatim>\<open>discretise_spatial\<close>, lines 660--684)\<close>

text \<open>
  An elementwise operation on two arrays: equal shapes, or one of them of length one
  (broadcast); anything else is an error.
\<close>

definition elementwise :: "('a \<Rightarrow> 'b \<Rightarrow> 'c) \<Rightarrow> 'a list \<Rightarrow> 'b list \<Rightarrow> error + 'c list" where
  "elementwise f xs ys =
     (if length xs = length ys then Inr (map2 f xs ys)
      else if length xs = 1 then Inr (map (f (hd xs)) ys)
      else if length ys = 1 then Inr (map (\<lambda>x. f x (hd ys)) xs)
      else Inl ValueError)"

text \<open>\<^verbatim>\<open>xs[mask]\<close> with a boolean mask, which must have the shape of \<open>xs\<close>.\<close>

definition boolean_index :: "'a list \<Rightarrow> bool list \<Rightarrow> error + 'a list" where
  "boolean_index xs selected =
     (if length selected = length xs then Inr (map fst (filter snd (zip xs selected)))
      else Inl IndexError)"

text \<open>
  The view \<^verbatim>\<open>discrete_rainfall[:, yi]\<close> of a two-dimensional array (a list of rows, one
  per timestep): reading it, and writing a column back through it. A column the array
  does not have lies outside the buffer.
\<close>

definition get_column :: "real list list \<Rightarrow> nat \<Rightarrow> error + real list" where
  "get_column arr yi =
     (if list_all (\<lambda>row. yi < length row) arr then Inr (map (\<lambda>row. row ! yi) arr)
      else Inl OutOfBounds)"

definition set_column :: "real list list \<Rightarrow> nat \<Rightarrow> real list \<Rightarrow> real list list" where
  "set_column arr yi col = map2 (\<lambda>row v. row[yi := v]) arr col"

text \<open>The body of the loop over locations, lines 672--684.\<close>

definition discretise_location ::
  "real \<Rightarrow> real \<Rightarrow> real list \<Rightarrow> real list \<Rightarrow> real list \<Rightarrow> real list \<Rightarrow> real list \<Rightarrow> real list
     \<Rightarrow> real list \<Rightarrow> real list \<Rightarrow> real list \<Rightarrow> nat \<Rightarrow> real list list \<Rightarrow> error + real list list" where
  "discretise_location period_start_time timestep_length raincell_arrival_times
     raincell_end_times raincell_intensities raincell_x_coords raincell_y_coords raincell_radii
     point_eastings point_northings point_phi idx discrete_rainfall =
     (if length point_northings \<le> idx then Inl OutOfBounds
      else
        let x = point_eastings ! idx; y = point_northings ! idx; yi = idx
        in bind_err
             (elementwise (\<lambda>cx cy. sqrt ((x - cx)\<^sup>2 + (y - cy)\<^sup>2)) raincell_x_coords
                raincell_y_coords)
             (\<lambda>distances_from_raincell_centres.
           bind_err (elementwise (\<lambda>d r. d \<le> r) distances_from_raincell_centres raincell_radii)
             (\<lambda>spatial_mask.
           bind_err (boolean_index raincell_arrival_times spatial_mask) (\<lambda>arrivals.
           bind_err (boolean_index raincell_end_times spatial_mask) (\<lambda>ends.
           bind_err (boolean_index raincell_intensities spatial_mask) (\<lambda>intensities.
           bind_err (get_column discrete_rainfall yi) (\<lambda>column.
           bind_err
             (discretise_point period_start_time timestep_length arrivals ends intensities
                column)
             (\<lambda>column'.
           if length point_phi \<le> idx then Inl OutOfBounds
           else Inr (set_column discrete_rainfall yi
                       (map (\<lambda>v. v * point_phi ! idx) column'))))))))))"

definition discretise_spatial ::
  "real \<Rightarrow> real \<Rightarrow> real list \<Rightarrow> real list \<Rightarrow> real list \<Rightarrow> real list list \<Rightarrow> real list
     \<Rightarrow> real list \<Rightarrow> real list \<Rightarrow> real list \<Rightarrow> real list \<Rightarrow> real list \<Rightarrow> error + real list list" where
  "discretise_spatial period_start_time timestep_length raincell_arrival_times
     raincell_end_times raincell_intensities discrete_rainfall raincell_x_coords
     raincell_y_coords raincell_radii point_eastings point_northings point_phi =
     for_each
       (discretise_location period_start_time timestep_length raincell_arrival_times
          raincell_end_times raincell_intensities raincell_x_coords raincell_y_coords
          raincell_radii point_eastings point_northings point_phi)
       [0..<length point_eastings]
       (map (\<lambda>row. replicate (length row) 0) discrete_rainfall)"

text \<open>
  A call \<^verbatim>\<open>discretise_spatial(...)\<close> with positional arguments. The function is
  declared with twelve parameters (lines 661--666): period start time, timestep length,
  arrival times, end times, intensities, output array, the raincells' x coordinates, y
  coordinates and radii, and the locations' eastings, northings and phi. A call with
  another number of arguments raises TypeError before the body runs, and so does an
  argument of another kind than its parameter.
\<close>

definition as_float :: "pyval \<Rightarrow> error + real" where
  "as_float v = (case v of Float x \<Rightarrow> Inr x | _ \<Rightarrow> Inl TypeError)"

definition as_array :: "pyval \<Rightarrow> error + real list" where
  "as_array v = (case v of Array xs \<Rightarrow> Inr xs | _ \<Rightarrow> Inl TypeError)"

definition as_matrix :: "pyval \<Rightarrow> error + real list list" where
  "as_matrix v = (case v of Matrix rows \<Rightarrow> Inr rows | _ \<Rightarrow> Inl TypeError)"

definition discretise_spatial_call :: "pyval list \<Rightarrow> error + real list list" where
  "discretise_spatial_call args =
     (if length args \<noteq> 12 then Inl TypeError
      else
        bind_err (as_float (args ! 0)) (\<lambda>period_start_time.
        bind_err (as_float (args ! 1)) (\<lambda>timestep_length.
        bind_err (as_array (args ! 2)) (\<lambda>raincell_arrival_times.
        bind_err (as_array (args ! 3)) (\<lambda>raincell_end_times.
        bind_err (as_array (args ! 4)) (\<lambda>raincell_intensities.
        bind_err (as_matrix (args ! 5)) (\<lambda>discrete_rainfall.
        bind_err (as_array (args ! 6)) (\<lambda>raincell_x_coords.
        bind_err (as_array (args ! 7)) (\<lambda>raincell_y_coords.
        bind_err (as_array (args ! 8)) (\<lambda>raincell_radii.
        bind_err (as_array (args ! 9)) (\<lambda>point_eastings.
        bind_err (as_array (args ! 10)) (\<lambda>point_northings.
        bind_err (as_array (args ! 11)) (\<lambda>point_phi.
          discretise_spatial period_start_time timestep_length raincell_arrival_times
            raincell_end_times raincell_intensities discrete_rainfall raincell_x_coords
            raincell_y_coords raincell_radii point_eastings point_northings
            point_phi)))))))))))))"

subsection \<open>Catchment averages (\<^verbatim>\<open>discretise_by_point\<close>, lines 528--625)\<close>

text \<open>
  NumPy's \<^verbatim>\<open>np.average(a, axis=1, weights=w)\<close> for a two-dimensional \<open>a\<close> and
  one-dimensional weights: the weights must be as many as the columns of \<open>a\<close>
  (ValueError), their sum \<open>scl\<close> must not be zero (ZeroDivisionError), and the result is,
  for every row, the sum of the products of values and weights divided by \<open>scl\<close>.
\<close>

definition np_average_axis1 :: "real list list \<Rightarrow> real list \<Rightarrow> error + real list" where
  "np_average_axis1 a weights =
     (if list_ex (\<lambda>row. length row \<noteq> length weights) a then Inl ValueError
      else
        let scl = sum_list weights
        in if scl = 0 then Inl ZeroDivisionError
           else Inr (map (\<lambda>row. sum_list (map2 (*) row weights) / scl) a))"

text \<open>
  The expression of lines 606--610 on its own: the weights of the catchment are looked
  up in the metadata under \<^verbatim>\<open>('catchment', 'weights', location_id)\<close>, and the month's
  timesteps are kept. In \<^verbatim>\<open>discretise_by_point\<close> it is reached only after the call of
  the spatial kernel in the same iteration of the month loop, see
  \<open>discretise_month_spatial\<close> below.
\<close>

definition catchment_output_array ::
  "real list list \<Rightarrow> ('id \<rightharpoonup> real list) \<Rightarrow> 'id \<Rightarrow> nat \<Rightarrow> error + real list" where
  "catchment_output_array grid_rainfall catchment_weights location_id timesteps_in_month =
     (case catchment_weights location_id of
        None \<Rightarrow> Inl KeyError
      | Some weights \<Rightarrow>
          bind_err (np_average_axis1 grid_rainfall weights)
            (\<lambda>catchment_discrete_rainfall.
               Inr (take timesteps_in_month catchment_discrete_rainfall)))"

text \<open>
  The weighted mean in the words of the specification: the mean of the values of the
  points of non-zero weight, under their weights.
\<close>

definition weighted_mean_of_weighted_points :: "real list \<Rightarrow> real list \<Rightarrow> real" where
  "weighted_mean_of_weighted_points point_values weights =
     (let used = filter (\<lambda>(v, w). w \<noteq> 0) (zip point_values weights)
      in sum_list (map (\<lambda>(v, w). v * w) used) / sum_list (map snd used))"

text \<open>
  A row of the raincell table \<^verbatim>\<open>df\<close> of a spatial model: the columns
  \<^verbatim>\<open>raincell_x\<close>, \<^verbatim>\<open>raincell_y\<close> and \<^verbatim>\<open>raincell_radii\<close> besides those of
  the non-spatial model (the radius of one raincell is \<open>raincell_radius\<close> here).
\<close>

record spatial_raincell = raincell +
  raincell_x :: real
  raincell_y :: real
  raincell_radius :: real

text \<open>
  The entries of \<^verbatim>\<open>discretisation_metadata\<close> that the catchment output reads:
  \<^verbatim>\<open>('grid', 'x')\<close>, \<^verbatim>\<open>('grid', 'y')\<close>, \<^verbatim>\<open>('grid', 'phi', season)\<close> for every
  season and \<^verbatim>\<open>('catchment', 'weights', location_id)\<close> for every catchment. A season
  or catchment without an entry is a KeyError.
\<close>

record discretisation_metadata =
  grid_x :: "real list"
  grid_y :: "real list"
  grid_phi :: "int \<rightharpoonup> real list"
  weights_by_catchment :: "nat \<rightharpoonup> real list"

text \<open>
  Lines 601--620 for one catchment of output type \<^verbatim>\<open>catchment\<close>: the average of
  the grid buffer, staged under the key (output type, location id, realisation id), as a
  new entry in the first month of the block and appended to the entry in later months.
\<close>

definition stage_catchment ::
  "real list list \<Rightarrow> (nat \<rightharpoonup> real list) \<Rightarrow> nat \<Rightarrow> nat \<Rightarrow> int \<Rightarrow> nat
     \<Rightarrow> (string \<times> nat \<times> int \<rightharpoonup> real list) \<Rightarrow> error + (string \<times> nat \<times> int \<rightharpoonup> real list)"
  where
  "stage_catchment grid_rainfall weights timesteps_in_month month_idx realisation_id location_id
     output_arrays =
     (let output_key = (''catchment'', location_id, realisation_id)
      in bind_err
           (catchment_output_array grid_rainfall weights location_id timesteps_in_month)
           (\<lambda>output_array.
              if month_idx = 0 then Inr (output_arrays(output_key \<mapsto> output_array))
              else case output_arrays output_key of
                     None \<Rightarrow> Inl KeyError
                   | Some staged \<Rightarrow> Inr (output_arrays(output_key \<mapsto> staged @ output_array))))"

text \<open>
  One iteration of the month loop for a spatial model with output type
  \<^verbatim>\<open>catchment\<close>, in the order of the source: the season of the month (line 541), the
  temporal subset (lines 544--555), the call of the spatial kernel on the grid buffer as
  written at lines 567--574, with thirteen arguments, whose last one is looked up under
  the season before the call, and then the staging of every catchment (lines 582--622).
  \<open>grid_rainfall\<close> is \<^verbatim>\<open>discrete_rainfall['grid']\<close> and \<open>catchment_names\<close> is
  \<^verbatim>\<open>catchments['name'].values\<close>. The conversion to half precision is not modelled.
\<close>

definition discretise_month_spatial ::
  "nat \<Rightarrow> month_row list \<Rightarrow> (int \<rightharpoonup> int) \<Rightarrow> real \<Rightarrow> spatial_raincell list
     \<Rightarrow> discretisation_metadata \<Rightarrow> nat list \<Rightarrow> int \<Rightarrow> nat
     \<Rightarrow> real list list \<times> (string \<times> nat \<times> int \<rightharpoonup> real list)
     \<Rightarrow> error + real list list \<times> (string \<times> nat \<times> int \<rightharpoonup> real list)" where
  "discretise_month_spatial first_label datetime_helper season_definitions timestep_length df
     metadata catchment_names realisation_id month_idx state =
     (case state of (grid_rainfall, output_arrays) \<Rightarrow>
        (case season_definitions (month (datetime_helper ! month_idx)) of
           None \<Rightarrow> Inl KeyError
         | Some season \<Rightarrow>
             bind_err (by_label first_label datetime_helper month_idx) (\<lambda>labelled.
               let temporal_mask =
                     (\<lambda>rc. raincell_arrival rc < end_time labelled
                             \<and> raincell_end rc > start_time labelled);
                   raincell_arrival_times = map raincell_arrival (filter temporal_mask df);
                   raincell_end_times = map raincell_end (filter temporal_mask df);
                   raincell_intensities = map raincell_intensity (filter temporal_mask df);
                   raincell_xs = map raincell_x (filter temporal_mask df);
                   raincell_ys = map raincell_y (filter temporal_mask df);
                   raincell_radii = map raincell_radius (filter temporal_mask df)
               in case grid_phi metadata season of
                    None \<Rightarrow> Inl KeyError
                  | Some phi \<Rightarrow>
                      bind_err
                        (discretise_spatial_call
                           [Float (start_time labelled), Float (end_time labelled),
                            Float timestep_length, Array raincell_arrival_times,
                            Array raincell_end_times, Array raincell_intensities,
                            Matrix grid_rainfall, Array raincell_xs, Array raincell_ys,
                            Array raincell_radii, Array (grid_x metadata),
                            Array (grid_y metadata), Array phi])
                        (\<lambda>grid_rainfall'.
                           let timesteps_in_month = n_timesteps (datetime_helper ! month_idx)
                           in bind_err
                                (for_each
                                   (stage_catchment grid_rainfall'
                                      (weights_by_catchment metadata) timesteps_in_month
                                      month_idx realisation_id)
                                   catchment_names output_arrays)
                                (\<lambda>output_arrays'. Inr (grid_rainfall', output_arrays'))))))"

text \<open>
  \<^verbatim>\<open>discretise_by_point\<close> for a spatial model and output type \<^verbatim>\<open>catchment\<close>: the
  grid buffer and the entries of \<^verbatim>\<open>output_arrays\<close> that are handed to the output
  writer.
\<close>

definition discretise_by_point_spatial ::
  "nat \<Rightarrow> month_row list \<Rightarrow> (int \<rightharpoonup> int) \<Rightarrow> spatial_raincell list \<Rightarrow> real
     \<Rightarrow> real list list \<Rightarrow> discretisation_metadata \<Rightarrow> nat list \<Rightarrow> int
     \<Rightarrow> error + real list list \<times> (string \<times> nat \<times> int \<rightharpoonup> real list)" where
  "discretise_by_point_spatial first_label datetime_helper season_definitions df timestep_length
     grid_rainfall metadata catchment_names realisation_id =
     for_each
       (discretise_month_spatial first_label datetime_helper season_definitions timestep_length
          df metadata catchment_names realisation_id)
       [0..<length datetime_helper] (grid_rainfall, Map.empty)"

subsection \<open>Block sizing and simulation (\<^verbatim>\<open>simulate_realisation\<close>, lines 403--513)\<close>

text \<open>A slice \<^verbatim>\<open>xs[i:j]\<close>; negative bounds count from the end, and bounds are clipped.\<close>

definition py_slice :: "'a list \<Rightarrow> int \<Rightarrow> int \<Rightarrow> 'a list" where
  "py_slice xs i j =
     (let n = int (length xs);
          i' = (if i < 0 then max 0 (n + i) else min i n);
          j' = (if j < 0 then max 0 (n + j) else min j n)
      in take (nat (j' - i')) (drop (nat i') xs))"

text \<open>
  What lies outside the source file: NumPy's \<^verbatim>\<open>default_rng\<close>, which builds a generator
  from the seed sequence and leaves the seed sequence as it was; the raincell generator
  \<^verbatim>\<open>nsproc.main\<close>, which for a block's month lengths draws from the generator it is given
  (leaving it in a new state) and returns a table or raises; and the allocation of lines
  452--460, whose outcome depends on the memory available when it is attempted.
  \<open>allocate k\<close> is the outcome of the allocation in the \<open>k\<close>-th pass through the
  \<^verbatim>\<open>try\<close> block. An exception that is not a MemoryError is \<open>OtherError\<close>.
\<close>

datatype 'tbl generated = Table 'tbl | RaisesMemoryError | RaisesOther

datatype allocation = Allocated | NoMemory | OtherFailure

record ('seq, 'g) collaborators =
  default_rng :: "'seq \<Rightarrow> 'g"
  nsproc_main :: "real list \<Rightarrow> 'g \<Rightarrow> raincell list generated \<times> 'g"
  allocate :: "nat \<Rightarrow> allocation"

text \<open>A call of the raincell generator, as the loops below record it.\<close>

record 'g generator_call =
  call_block_size :: int
  call_block_id :: int
  call_month_lengths :: "real list"
  call_rng :: 'g

text \<open>
  The sizing loop, lines 443--474. It ends when the \<^verbatim>\<open>while\<close> condition fails or an
  exception other than MemoryError leaves the \<^verbatim>\<open>try\<close> block; a loop that never ends has
  the value \<open>None\<close>. \<open>attempt\<close> counts the passes through the \<^verbatim>\<open>try\<close> block, and \<open>calls\<close>
  collects the calls of the generator.
\<close>

partial_function (option) sizing_loop ::
  "('seq, 'g) collaborators \<Rightarrow> 'seq \<Rightarrow> month_row list \<Rightarrow> int \<Rightarrow> nat \<Rightarrow> int \<Rightarrow> int \<Rightarrow> 'g
     \<Rightarrow> 'g generator_call list \<Rightarrow> ('g generator_call list \<times> (error + int)) option" where
  "sizing_loop c seed_sequence datetime_helper number_of_years attempt block_size block_id rng
     calls =
     (if block_id * block_size < number_of_years then
        (let idx1 = block_id * block_size * 12;
             idx2 = (block_id + 1) * block_size * 12;
             month_lengths = py_slice (map n_hours datetime_helper) idx1 idx2;
             calls' = calls @ [\<lparr>call_block_size = block_size, call_block_id = block_id,
                                call_month_lengths = month_lengths, call_rng = rng\<rparr>]
         in case nsproc_main c month_lengths rng of
              (Table dummy1, rng') \<Rightarrow>
                (case allocate c attempt of
                   Allocated \<Rightarrow>
                     sizing_loop c seed_sequence datetime_helper number_of_years (Suc attempt)
                       block_size (block_id + 1) rng' calls'
                 | NoMemory \<Rightarrow>
                     sizing_loop c seed_sequence datetime_helper number_of_years (Suc attempt)
                       (block_size div 2) 0 (default_rng c seed_sequence) calls'
                 | OtherFailure \<Rightarrow> Some (calls', Inl OtherError))
            | (RaisesMemoryError, rng') \<Rightarrow>
                sizing_loop c seed_sequence datetime_helper number_of_years (Suc attempt)
                  (block_size div 2) 0 (default_rng c seed_sequence) calls'
            | (RaisesOther, rng') \<Rightarrow> Some (calls', Inl OtherError))
      else Some (calls, Inr block_size))"

text \<open>Lines 440--474: the sizing loop from its initial state.\<close>

definition sizing_phase ::
  "('seq, 'g) collaborators \<Rightarrow> 'seq \<Rightarrow> month_row list \<Rightarrow> int
     \<Rightarrow> ('g generator_call list \<times> (error + int)) option" where
  "sizing_phase c seed_sequence datetime_helper number_of_years =
     sizing_loop c seed_sequence datetime_helper number_of_years 0 (min number_of_years 1000) 0
       (default_rng c seed_sequence) []"

text \<open>
  The simulation loop, lines 481--509, for a non-spatial model (whose table has no
  coordinates to convert) and the default discretisation method. An exception ends it.
  \<open>written\<close> collects what each block hands to the output writer.
\<close>

partial_function (option) simulating_loop ::
  "('seq, 'g) collaborators \<Rightarrow> int \<Rightarrow> month_row list \<Rightarrow> real \<Rightarrow> int \<Rightarrow> int \<Rightarrow> int \<Rightarrow> 'g
     \<Rightarrow> real list \<Rightarrow> 'g generator_call list \<Rightarrow> ((string \<times> int \<times> int) \<times> real list) list
     \<Rightarrow> ('g generator_call list \<times> (error + ((string \<times> int \<times> int) \<times> real list) list)) option"
  where
  "simulating_loop c realisation_id datetime_helper timestep_length number_of_years block_size
     block_id rng buffer calls written =
     (if block_id * block_size < number_of_years then
        (let idx1 = block_id * block_size * 12;
             idx2 = (block_id + 1) * block_size * 12;
             month_lengths = py_slice (map n_hours datetime_helper) idx1 idx2;
             calls' = calls @ [\<lparr>call_block_size = block_size, call_block_id = block_id,
                                call_month_lengths = month_lengths, call_rng = rng\<rparr>]
         in case nsproc_main c month_lengths rng of
              (Table df, rng') \<Rightarrow>
                (case discretise_by_point (nat idx1) (py_slice datetime_helper idx1 idx2) df
                        timestep_length buffer realisation_id of
                   Inl e \<Rightarrow> Some (calls', Inl e)
                 | Inr (buffer', output) \<Rightarrow>
                     simulating_loop c realisation_id datetime_helper timestep_length
                       number_of_years block_size (block_id + 1) rng' buffer' calls'
                       (written @ [output]))
            | (RaisesMemoryError, rng') \<Rightarrow> Some (calls', Inl MemoryError)
            | (RaisesOther, rng') \<Rightarrow> Some (calls', Inl OtherError))
      else Some (calls, Inr written))"

text \<open>
  \<^verbatim>\<open>initialise_discrete_rainfall_arrays\<close> (lines 516--525) for a non-spatial model: one
  column of \<^verbatim>\<open>int((24 / timestep_length) * 31)\<close> zeros, where \<^verbatim>\<open>int\<close> rounds towards
  zero.
\<close>

definition initialise_discrete_rainfall_arrays :: "real \<Rightarrow> error + real list" where
  "initialise_discrete_rainfall_arrays timestep_length =
     (if timestep_length = 0 then Inl ZeroDivisionError
      else
        let x = (24 / timestep_length) * 31;
            nt = (if 0 \<le> x then \<lfloor>x\<rfloor> else \<lceil>x\<rceil>)
        in if nt < 0 then Inl ValueError else Inr (replicate (nat nt) 0))"

record 'g realisation =
  sizing_calls :: "'g generator_call list"
  simulation_calls :: "'g generator_call list"
  outcome :: "error + ((string \<times> int \<times> int) \<times> real list) list"

text \<open>
  \<^verbatim>\<open>simulate_realisation\<close>: the generator is created from the seed sequence for the
  sizing loop (line 440) and again for the simulation loop (line 479). The realisation
  id reaches the output keys only.
\<close>

definition simulate_realisation ::
  "('seq, 'g) collaborators \<Rightarrow> 'seq \<Rightarrow> int \<Rightarrow> month_row list \<Rightarrow> int \<Rightarrow> real
     \<Rightarrow> 'g realisation option" where
  "simulate_realisation c seed_sequence realisation_id datetime_helper number_of_years
     timestep_length =
     (case initialise_discrete_rainfall_arrays timestep_length of
        Inl e \<Rightarrow> Some \<lparr>sizing_calls = [], simulation_calls = [], outcome = Inl e\<rparr>
      | Inr discrete_rainfall \<Rightarrow>
          (case sizing_phase c seed_sequence datetime_helper number_of_years of
             None \<Rightarrow> None
           | Some (probes, Inl e) \<Rightarrow>
               Some \<lparr>sizing_calls = probes, simulation_calls = [], outcome = Inl e\<rparr>
           | Some (probes, Inr block_size) \<Rightarrow>
               (case simulating_loop c realisation_id datetime_helper timestep_length
                       number_of_years block_size 0 (default_rng c seed_sequence)
                       discrete_rainfall [] [] of
                  None \<Rightarrow> None
                | Some (calls, result) \<Rightarrow>
                    Some \<lparr>sizing_calls = probes, simulation_calls = calls,
                          outcome = result\<rparr>)))"

subsection \<open>Domain bounds (\<^verbatim>\<open>identify_domain_bounds\<close>, lines 95--121)\<close>

record grid =
  xllcorner :: real
  yllcorner :: real
  ncols :: nat
  nrows :: nat
  cellsize :: real

text \<open>
  Modelled from the spec: \<^verbatim>\<open>utils.grid_limits\<close> is not in the source file. The grid
  descriptor gives the corner, the cell size and the row and column counts, so the limits
  are the corner and the corner moved by the extent of the grid.
\<close>

definition grid_limits :: "grid \<Rightarrow> real \<times> real \<times> real \<times> real" where
  "grid_limits g =
     (xllcorner g, yllcorner g, xllcorner g + real (ncols g) * cellsize g,
      yllcorner g + real (nrows g) * cellsize g)"

text \<open>
  Modelled from the spec: \<^verbatim>\<open>utils.round_down\<close> is not in the source file. A minimum is
  rounded to a multiple of the cell size with floor.
\<close>

definition round_down :: "real \<Rightarrow> real \<Rightarrow> real" where
  "round_down x base = of_int \<lfloor>x / base\<rfloor> * base"

text \<open>
  Modelled from the spec: \<^verbatim>\<open>utils.round_up\<close> is not in the source file. A maximum is
  rounded to a multiple of the cell size with ceiling.
\<close>

definition round_up :: "real \<Rightarrow> real \<Rightarrow> real" where
  "round_up x base = of_int \<lceil>x / base\<rceil> * base"

record point =
  easting :: real
  northing :: real

text \<open>
  A point table is given by its first row and the rows after it: it has at least one
  row. (The minimum of an empty column is not a number, which the real numbers of this
  model do not have.) \<^verbatim>\<open>np.min\<close> and \<^verbatim>\<open>np.max\<close> of a column of such a table:
\<close>

type_synonym point_table = "point \<times> point list"

definition column_min :: "(point \<Rightarrow> real) \<Rightarrow> point_table \<Rightarrow> real" where
  "column_min column points = fold min (map column (snd points)) (column (fst points))"

definition column_max :: "(point \<Rightarrow> real) \<Rightarrow> point_table \<Rightarrow> real" where
  "column_max column points = fold max (map column (snd points)) (column (fst points))"

text \<open>
  The local variables \<^verbatim>\<open>xmin, ymin, xmax, ymax\<close> are assigned in the branch for points
  only (lines 102--116); \<open>None\<close> stands for the four of them unassigned, and reading them
  at line 117 is then an UnboundLocalError.
\<close>

definition identify_domain_bounds ::
  "grid option \<Rightarrow> real \<Rightarrow> point_table option \<Rightarrow> error + real \<times> real \<times> real \<times> real" where
  "identify_domain_bounds grid_descriptor cell_size points =
     (let assigned =
            (case points of
               None \<Rightarrow> None
             | Some pts \<Rightarrow>
                 let points_xmin = column_min easting pts;
                     points_ymin = column_min northing pts;
                     points_xmax = column_max easting pts;
                     points_ymax = column_max northing pts
                 in (case map_option grid_limits grid_descriptor of
                       Some (grid_xmin, grid_ymin, grid_xmax, grid_ymax) \<Rightarrow>
                         Some (min points_xmin grid_xmin, min points_ymin grid_ymin,
                               max points_xmax grid_xmax, max points_ymax grid_ymax)
                     | None \<Rightarrow> Some (points_xmin, points_ymin, points_xmax, points_ymax)))
      in case assigned of
           None \<Rightarrow> Inl UnboundLocalError
         | Some (xmin, ymin, xmax, ymax) \<Rightarrow>
             Inr (round_down xmin cell_size, round_down ymin cell_size,
                  round_up xmax cell_size, round_up ymax cell_size))"

subsection \<open>Variogram bins (\<^verbatim>\<open>make_phi_interpolator\<close>, lines 260--276)\<close>

text \<open>
  \<^verbatim>\<open>scipy.spatial.distance.pdist\<close>: the Euclidean distances of all pairs of rows;
  \<^verbatim>\<open>np.max\<close> of an array, which raises ValueError on an empty one; and
  \<^verbatim>\<open>np.arange(start, stop, step)\<close>, which has \<open>\<lceil>(stop - start) / step\<rceil>\<close> elements
  and refuses a step of zero.
\<close>

definition np_max :: "real list \<Rightarrow> error + real" where
  "np_max xs = (case xs of [] \<Rightarrow> Inl ValueError | x # rest \<Rightarrow> Inr (fold max rest x))"

fun pdist :: "point list \<Rightarrow> real list" where
  "pdist [] = []"
| "pdist (p # ps) =
     map (\<lambda>q. sqrt ((easting p - easting q)\<^sup>2 + (northing p - northing q)\<^sup>2)) ps @ pdist ps"

definition np_arange :: "real \<Rightarrow> real \<Rightarrow> real \<Rightarrow> error + real list" where
  "np_arange start stop step =
     (if step = 0 then Inl ValueError
      else Inr (map (\<lambda>i. start + real i * step) [0..<nat \<lceil>(stop - start) / step\<rceil>]))"

text \<open>
  Lines 260--264, with \<^verbatim>\<open>bin_edges[-1] = ...\<close> an assignment to the last element. With
  no bins at all the interval is infinite, the array of edges is empty and that
  assignment fails.
\<close>

definition calculate_bin_edges :: "point list \<Rightarrow> nat \<Rightarrow> error + real list" where
  "calculate_bin_edges df1 distance_bins =
     bind_err (np_max (pdist df1)) (\<lambda>max_distance.
       if distance_bins = 0 then Inl IndexError
       else
         let interval = max_distance / real distance_bins
         in bind_err (np_arange 0 (max_distance + 1 / 10) interval) (\<lambda>bin_edges.
              if bin_edges = [] then Inl IndexError
              else Inr (bin_edges[length bin_edges - 1 := max_distance + 1 / 10])))"

text \<open>
  Lines 275--276: the bins without pairs are dropped from the centres and from the
  estimates which \<^verbatim>\<open>gstools.vario_estimate\<close> returned with the counts.
\<close>

definition drop_empty_bins ::
  "real list \<Rightarrow> real list \<Rightarrow> nat list \<Rightarrow> error + real list \<times> real list" where
  "drop_empty_bins bin_centres gamma counts =
     bind_err (boolean_index bin_centres (map (\<lambda>n. n > 0) counts)) (\<lambda>bin_centres'.
     bind_err (boolean_index gamma (map (\<lambda>n. n > 0) counts)) (\<lambda>gamma'.
       Inr (bin_centres', gamma')))"


subsection \<open>Environments for the examples\<close>

text \<open>
  A generator that returns an empty table and advances its random state by one, with
  generators created in the state the seed sequence names; the allocation fails in the
  first three passes, or in every pass, or never. A table of calendar months of 744
  hours each serves where only the number of months matters.
\<close>

definition fails_three_times :: "(nat, nat) collaborators" where
  "fails_three_times =
     \<lparr>default_rng = (\<lambda>seed. seed), nsproc_main = (\<lambda>month_lengths g. (Table [], Suc g)),
      allocate = (\<lambda>k. if k < 3 then NoMemory else Allocated)\<rparr>"

definition fails_always :: "(nat, nat) collaborators" where
  "fails_always =
     \<lparr>default_rng = (\<lambda>seed. seed), nsproc_main = (\<lambda>month_lengths g. (Table [], Suc g)),
      allocate = (\<lambda>k. NoMemory)\<rparr>"

definition never_fails :: "(nat, nat) collaborators" where
  "never_fails =
     \<lparr>default_rng = (\<lambda>seed. seed), nsproc_main = (\<lambda>month_lengths g. (Table [], Suc g)),
      allocate = (\<lambda>k. Allocated)\<rparr>"

text \<open>
  A generator that has memory for blocks of at most 48 months and raises MemoryError
  on longer ones, with an allocation that fails in the third pass only.
\<close>

definition memory_for_four_years :: "(nat, nat) collaborators" where
  "memory_for_four_years =
     \<lparr>default_rng = (\<lambda>seed. seed),
      nsproc_main = (\<lambda>month_lengths g.
        if 48 < length month_lengths then (RaisesMemoryError, g) else (Table [], Suc g)),
      allocate = (\<lambda>k. if k = 2 then NoMemory else Allocated)\<rparr>"

definition months_of_744_hours :: "nat \<Rightarrow> month_row list" where
  "months_of_744_hours n =
     replicate n \<lparr>year = 0, month = 1, n_timesteps = 744, start_time = 0, end_time = 744\<rparr>"

section \<open>Properties\<close>

subsection \<open>Conservation of depth in the point kernel\<close>


lemma accumulate_inside:
  "0 \<le> t \<Longrightarrow> t < int (length d) \<Longrightarrow> accumulate d t v = Inr (d[nat t := d ! nat t + v])"
  by (simp add: accumulate_def)

lemma floor_div_lower: "0 < ts \<Longrightarrow> of_int \<lfloor>x / ts\<rfloor> * ts \<le> (x::real)"
  by (simp add: pos_le_divide_eq [symmetric])

lemma floor_div_upper: "0 < ts \<Longrightarrow> (x::real) < (of_int \<lfloor>x / ts\<rfloor> + 1) * ts"
  by (simp add: pos_divide_less_eq [symmetric])




lemma discretise_raincell_one_timestep:
  assumes ts: "0 < ts" and start: "p \<le> a"
    and same: "\<lfloor>(a - p) / ts\<rfloor> = \<lfloor>(e - p) / ts\<rfloor>"
    and fit: "\<lfloor>(e - p) / ts\<rfloor> < int (length d)"
  shows "discretise_raincell p ts a e i d =
           Inr (d[nat \<lfloor>(a - p) / ts\<rfloor> := d ! nat \<lfloor>(a - p) / ts\<rfloor> + i * (e - a)])"
proof -
  let ?k = "\<lfloor>(e - p) / ts\<rfloor>"
  have k0: "0 \<le> ?k" using ts start same [symmetric] by simp
  have lo: "of_int ?k * ts \<le> a - p" using floor_div_lower [OF ts, of "a - p"] same by simp
  have hi: "e - p < (of_int ?k + 1) * ts" using floor_div_upper [OF ts, of "e - p"] by simp
  have cov: "min (e - p) ((of_int ?k + 1) * ts) - max (a - p) (of_int ?k * ts) = e - a"
    using lo hi by simp
  have "[?k..?k] = [?k]" by (simp add: upto_rec1)
  then show ?thesis using ts same k0 fit cov
    by (simp add: discretise_raincell_def Let_def accumulate_inside)
qed













subsection \<open>The month loop calls the kernel with seven arguments\<close>

lemma discretise_point_call_seven:
  "discretise_point_call [a1, a2, a3, a4, a5, a6, a7] = Inl TypeError"
  by (simp add: discretise_point_call_def)

lemma discretise_by_point_raises:
  "discretise_by_point 0 (row # rows) df timestep_length buffer realisation_id = Inl TypeError"
proof -
  have "[0..<length (row # rows)] = 0 # [Suc 0..<Suc (length rows)]"
    by (simp add: upt_conv_Cons del: upt_Suc)
  then show ?thesis
    by (simp add: discretise_by_point_def discretise_month_def by_label_def
        discretise_point_call_seven bind_err_def del: upt_Suc)
qed

lemma kernel_on_scenario:
  "discretise_point 0 1 [0] [3 / 2] [2] (replicate 744 0)
     = Inr ((replicate 744 0)[0 := 2, 1 := 1])"
  by (simp add: discretise_point_def discretise_raincell_def accumulate_def upto_rec1)

text \<open>
  Claim C2. The month loop of the non-spatial path, run on one month of hourly timesteps
  and the single raincell with arrival 0, end 1.5 and intensity 2, does not produce the
  array 2.0, 1.0, 0, ...: the call of the kernel at lines 576--579 passes seven arguments
  to a function of six parameters and raises TypeError. (The kernel called with its own
  six parameters gives that array, see \<open>kernel_on_scenario\<close>.)
\<close>

theorem end_to_end_point_scenario_raises:
  "discretise_by_point 0
     [\<lparr>year = 2000, month = 1, n_timesteps = 744, start_time = 0, end_time = 744\<rparr>]
     [\<lparr>raincell_arrival = 0, raincell_end = 3 / 2, raincell_intensity = 2\<rparr>]
     1 (replicate 744 0) 1 = Inl TypeError"
  by (rule discretise_by_point_raises)

subsection \<open>A raincell that arrives before the period start\<close>

text \<open>
  Claim C10. In an hourly series that begins with January, August starts at hour 5088
  and fills the output array of 744 timesteps. A raincell from hour 5087.5 to hour 5088.5
  with intensity 2 passes the temporal filter of the caller (it arrives before the
  month's end and ends after its start). Its arrival timestep relative to the period
  start is -1, the guard \<^verbatim>\<open>timestep < discrete_rainfall.shape[0]\<close> lets it through, and
  the half hour before the period start is added to the last element of the array, index
  743, the last hour of August, instead of being dropped.
\<close>

theorem early_raincell_lands_in_last_timestep:
  "discretise_point 5088 1 [10175 / 2] [10177 / 2] [2] (replicate 744 0)
     = Inr ((replicate 744 0)[743 := 1, 0 := 1])"
  by (simp add: discretise_point_def discretise_raincell_def accumulate_def upto_rec1)

subsection \<open>Spatial discretisation with one active raincell\<close>

lemma accumulate_length: "accumulate d t v = Inr d' \<Longrightarrow> length d' = length d"
  by (auto simp: accumulate_def Let_def split: if_splits)

lemma timestep_loop_length:
  "timestep_loop ts a e i steps d = Inr d' \<Longrightarrow> length d' = length d"
proof (induction steps arbitrary: d)
  case Nil
  then show ?case by simp
next
  case (Cons t steps)
  then show ?case
    by (auto simp: Let_def split: sum.splits dest: accumulate_length)
qed

lemma discretise_raincell_length:
  "discretise_raincell p ts a e i d = Inr d' \<Longrightarrow> length d' = length d"
  by (auto simp: discretise_raincell_def Let_def split: if_splits dest: timestep_loop_length)

lemma raincell_loop_length:
  "raincell_loop p ts as es is d = Inr d' \<Longrightarrow> length d' = length d"
proof (induction p ts as es "is" d rule: raincell_loop.induct)
  case (2 p ts a as e es i "is" d)
  then show ?case
    by (auto split: sum.splits dest: discretise_raincell_length)
qed simp_all

lemma discretise_point_length:
  "discretise_point p ts as es is d = Inr d' \<Longrightarrow> length d' = length d"
  by (auto simp: discretise_point_def dest: raincell_loop_length)

lemma discretise_point_depends_on_length:
  "length d1 = length d2 \<Longrightarrow> discretise_point p ts as es is d1 = discretise_point p ts as es is d2"
  by (simp add: discretise_point_def)

lemma filter_none_selected:
  "length sel = length xs \<Longrightarrow> \<forall>k<length xs. \<not> sel ! k \<Longrightarrow> filter snd (zip xs sel) = []"
  by (auto simp: filter_empty_conv set_zip)

lemma filter_one_selected:
  "length sel = length xs \<Longrightarrow> j < length xs \<Longrightarrow> sel ! j
     \<Longrightarrow> \<forall>k<length xs. k \<noteq> j \<longrightarrow> \<not> sel ! k
     \<Longrightarrow> map fst (filter snd (zip xs sel)) = [xs ! j]"
proof (induction xs arbitrary: sel j)
  case Nil
  then show ?case by simp
next
  case (Cons x xs)
  then obtain s sel' where sel: "sel = s # sel'" by (cases sel) auto
  show ?case
  proof (cases j)
    case 0
    have "\<forall>k<length xs. \<not> sel' ! k"
    proof (intro allI impI)
      fix k assume "k < length xs"
      then show "\<not> sel' ! k" using Cons.prems(4) [rule_format, of "Suc k"] 0 sel by simp
    qed
    then have "filter snd (zip xs sel') = []"
      using Cons.prems(1) sel by (intro filter_none_selected) simp_all
    then show ?thesis using Cons.prems(3) 0 sel by simp
  next
    case (Suc j')
    have s: "\<not> s" using Cons.prems(4) [rule_format, of 0] Suc sel by simp
    have "\<forall>k<length xs. k \<noteq> j' \<longrightarrow> \<not> sel' ! k"
    proof (intro allI impI)
      fix k assume "k < length xs" "k \<noteq> j'"
      then show "\<not> sel' ! k" using Cons.prems(4) [rule_format, of "Suc k"] Suc sel by simp
    qed
    then have "map fst (filter snd (zip xs sel')) = [xs ! j']"
      using Cons.prems(1,2,3) Suc sel by (intro Cons.IH) simp_all
    then show ?thesis using s Suc sel by simp
  qed
qed

lemma boolean_index_one_selected:
  "length sel = length xs \<Longrightarrow> j < length xs \<Longrightarrow> sel ! j
     \<Longrightarrow> \<forall>k<length xs. k \<noteq> j \<longrightarrow> \<not> sel ! k
     \<Longrightarrow> boolean_index xs sel = Inr [xs ! j]"
  by (simp add: boolean_index_def filter_one_selected)

lemma get_column_length: "get_column arr c = Inr col \<Longrightarrow> length col = length arr"
  by (auto simp: get_column_def split: if_splits)

lemma set_column_length: "length col = length arr \<Longrightarrow> length (set_column arr c col) = length arr"
  by (simp add: set_column_def)

lemma get_set_column_same:
  "length col = length arr \<Longrightarrow> get_column arr c = Inr col0
     \<Longrightarrow> get_column (set_column arr c col) c = Inr col"
proof (induction arr arbitrary: col col0)
  case Nil
  then show ?case by (simp add: get_column_def set_column_def)
next
  case (Cons row arr)
  then obtain v col' where col: "col = v # col'" by (cases col) auto
  from Cons.prems(2) have row: "c < length row" and rest: "get_column arr c = Inr (tl col0)"
    by (auto simp: get_column_def split: if_splits)
  from Cons.IH [OF _ rest, of col'] Cons.prems(1) col
  have "get_column (set_column arr c col') c = Inr col'" by simp
  then show ?case using row col
    by (auto simp: get_column_def set_column_def split: if_splits)
qed

lemma get_set_column_other:
  "length col = length arr \<Longrightarrow> c \<noteq> k \<Longrightarrow> get_column (set_column arr k col) c = get_column arr c"
proof (induction arr arbitrary: col)
  case Nil
  then show ?case by (simp add: get_column_def set_column_def)
next
  case (Cons row arr)
  then obtain v col' where col: "col = v # col'" by (cases col) auto
  from Cons.IH [of col'] Cons.prems col
  have "get_column (set_column arr k col') c = get_column arr c" by simp
  then show ?case using col Cons.prems(2)
    by (auto simp: get_column_def set_column_def split: if_splits)
qed


lemma bind_err_Inr_iff:
  "bind_err m f = Inr y \<longleftrightarrow> (\<exists>x. m = Inr x \<and> f x = Inr y)"
  by (cases m) (simp_all add: bind_err_def)

lemma discretise_location_frame:
  assumes "discretise_location p ts as es is rx ry rr E N phi k arr = Inr arr'"
  shows "length arr' = length arr"
    and "c \<noteq> k \<Longrightarrow> get_column arr' c = get_column arr c"
proof -
  from assms obtain column column' where
    col: "get_column arr k = Inr column" and
    arr': "arr' = set_column arr k (map (\<lambda>v. v * phi ! k) column')" and
    len: "length column' = length column"
    by (auto simp: discretise_location_def Let_def bind_err_Inr_iff split: if_splits
        dest: discretise_point_length)
  have l: "length (map (\<lambda>v. v * phi ! k) column') = length arr"
    using len get_column_length [OF col] by simp
  show "length arr' = length arr" unfolding arr' by (rule set_column_length [OF l])
  show "get_column arr' c = get_column arr c" if "c \<noteq> k"
    unfolding arr' by (rule get_set_column_other [OF l that])
qed

lemma for_each_location_frame:
  assumes "for_each (discretise_location p ts as es is rx ry rr E N phi) ks arr = Inr out"
  shows "length out = length arr"
    and "c \<notin> set ks \<Longrightarrow> get_column out c = get_column arr c"
  using assms
proof (induction ks arbitrary: arr)
  case Nil
  {
    case 1
    then show ?case by simp
  next
    case 2
    then show ?case by simp
  }
next
  case (Cons k ks)
  {
    case 1
    then obtain arr1 where
      s: "discretise_location p ts as es is rx ry rr E N phi k arr = Inr arr1"
      and r: "for_each (discretise_location p ts as es is rx ry rr E N phi) ks arr1 = Inr out"
      by (auto simp: bind_err_Inr_iff)
    show ?case using Cons.IH(1) [OF r] discretise_location_frame(1) [OF s] by simp
  next
    case 2
    then obtain arr1 where
      s: "discretise_location p ts as es is rx ry rr E N phi k arr = Inr arr1"
      and r: "for_each (discretise_location p ts as es is rx ry rr E N phi) ks arr1 = Inr out"
      by (auto simp: bind_err_Inr_iff)
    from 2 have ck: "c \<noteq> k" and cks: "c \<notin> set ks" by auto
    show ?case using Cons.IH(2) [OF cks r] discretise_location_frame(2) [OF s ck] by simp
  }
qed

lemma for_each_append:
  "for_each body (xs @ ys) s = bind_err (for_each body xs s) (for_each body ys)"
  by (induction xs arbitrary: s) (auto simp: bind_err_def split: sum.splits)

lemma discretise_location_single_active:
  assumes len: "length es = length as" "length is = length as" "length rx = length as"
      "length ry = length as" "length rr = length as"
    and idx: "idx < length N" "idx < length phi" and phi: "phi ! idx = 1"
    and j: "j < length as"
    and active: "sqrt ((E ! idx - rx ! j)\<^sup>2 + (N ! idx - ry ! j)\<^sup>2) \<le> rr ! j"
    and others: "\<forall>k<length as. k \<noteq> j \<longrightarrow>
                   rr ! k < sqrt ((E ! idx - rx ! k)\<^sup>2 + (N ! idx - ry ! k)\<^sup>2)"
    and ok: "discretise_location p ts as es is rx ry rr E N phi idx arr = Inr arr'"
  shows "get_column arr' idx
           = discretise_point p ts [as ! j] [es ! j] [is ! j] (replicate (length arr) 0)"
proof -
  let ?dist = "\<lambda>cx cy. sqrt ((E ! idx - cx)\<^sup>2 + (N ! idx - cy)\<^sup>2)"
  let ?sel = "map2 (\<lambda>d r. d \<le> r) (map2 ?dist rx ry) rr"
  have sel_len: "length ?sel = length as" using len by simp
  have sel_nth: "?sel ! k = (?dist (rx ! k) (ry ! k) \<le> rr ! k)" if "k < length as" for k
    using that len by simp
  have sj: "?sel ! j" using sel_nth [OF j] active by simp
  have so: "\<forall>k<length as. k \<noteq> j \<longrightarrow> \<not> ?sel ! k"
    using sel_nth others by (simp add: not_le)
  have b1: "boolean_index as ?sel = Inr [as ! j]"
    using sel_len j sj so by (intro boolean_index_one_selected) simp_all
  have b2: "boolean_index es ?sel = Inr [es ! j]"
    using sel_len j sj so len by (intro boolean_index_one_selected) simp_all
  have b3: "boolean_index is ?sel = Inr [is ! j]"
    using sel_len j sj so len by (intro boolean_index_one_selected) simp_all
  have e1: "elementwise ?dist rx ry = Inr (map2 ?dist rx ry)"
    using len by (simp add: elementwise_def)
  have e2: "elementwise (\<lambda>d r. d \<le> r) (map2 ?dist rx ry) rr = Inr ?sel"
    using len by (simp add: elementwise_def)
  have unfold: "discretise_location p ts as es is rx ry rr E N phi idx arr =
      bind_err (get_column arr idx) (\<lambda>column.
        bind_err (discretise_point p ts [as ! j] [es ! j] [is ! j] column) (\<lambda>column'.
          Inr (set_column arr idx (map (\<lambda>v. v * phi ! idx) column'))))"
    using idx by (simp add: discretise_location_def Let_def bind_err_def e1 e2 b1 b2 b3)
  from ok [unfolded unfold] obtain column column' where
    col: "get_column arr idx = Inr column" and
    dp: "discretise_point p ts [as ! j] [es ! j] [is ! j] column = Inr column'" and
    arr': "arr' = set_column arr idx (map (\<lambda>v. v * phi ! idx) column')"
    by (auto simp: bind_err_Inr_iff)
  have lc: "length column = length arr" by (rule get_column_length [OF col])
  have lc': "length column' = length arr" using discretise_point_length [OF dp] lc by simp
  have "get_column arr' idx = Inr column'"
    unfolding arr' using get_set_column_same [OF _ col, of "map (\<lambda>v. v * phi ! idx) column'"] lc' phi
    by simp
  also have "\<dots> = discretise_point p ts [as ! j] [es ! j] [is ! j] (replicate (length arr) 0)"
    using dp discretise_point_depends_on_length [of column "replicate (length arr) 0"] lc
    by simp
  finally show ?thesis .
qed

lemma accumulate_ok:
  "- int (length d) \<le> t \<Longrightarrow> \<exists>d'. accumulate d t v = Inr d'"
  by (simp add: accumulate_def Let_def)

lemma timestep_loop_ok:
  "\<forall>t\<in>set steps. - int (length d) \<le> t \<Longrightarrow> \<exists>d'. timestep_loop ts a e i steps d = Inr d'"
proof (induction steps arbitrary: d)
  case Nil
  then show ?case by simp
next
  case (Cons t steps)
  from Cons.prems have "- int (length d) \<le> t" by simp
  from accumulate_ok [OF this] obtain d1 where
    d1: "accumulate d t (i * (min e ((of_int t + 1) * ts) - max a (of_int t * ts))) = Inr d1"
    by blast
  have "length d1 = length d" by (rule accumulate_length [OF d1])
  with Cons.prems have "\<forall>t\<in>set steps. - int (length d1) \<le> t" by simp
  from Cons.IH [OF this] obtain d' where "timestep_loop ts a e i steps d1 = Inr d'" by blast
  then show ?case using d1 by (simp add: Let_def)
qed

lemma discretise_raincell_ok:
  assumes "ts \<noteq> 0" "- int (length d) \<le> \<lfloor>(a - p) / ts\<rfloor>"
  shows "\<exists>d'. discretise_raincell p ts a e i d = Inr d'"
proof -
  have "\<forall>t\<in>set [\<lfloor>(a - p) / ts\<rfloor> .. \<lfloor>(e - p) / ts\<rfloor>]. - int (length d) \<le> t"
    using assms(2) by auto
  from timestep_loop_ok [OF this] show ?thesis
    using assms(1) by (simp add: discretise_raincell_def Let_def)
qed

lemma raincell_loop_ok:
  assumes "ts \<noteq> 0" "length es = length as" "length is = length as"
    "\<forall>a\<in>set as. - int (length d) \<le> \<lfloor>(a - p) / ts\<rfloor>"
  shows "\<exists>d'. raincell_loop p ts as es is d = Inr d'"
  using assms(2,3,4)
proof (induction as arbitrary: es "is" d)
  case Nil
  then show ?case by simp
next
  case (Cons a as)
  from Cons.prems obtain e es' i is' where es: "es = e # es'" and "is": "is = i # is'"
    by (cases es; cases "is") auto
  from Cons.prems(3) have "- int (length d) \<le> \<lfloor>(a - p) / ts\<rfloor>" by simp
  from discretise_raincell_ok [OF assms(1) this] obtain d1 where
    d1: "discretise_raincell p ts a e i d = Inr d1" by blast
  have l: "length d1 = length d" by (rule discretise_raincell_length [OF d1])
  have "\<exists>d'. raincell_loop p ts as es' is' d1 = Inr d'"
    using Cons.prems es "is" l by (intro Cons.IH) simp_all
  then show ?case using d1 es "is" by simp
qed

lemma discretise_point_ok:
  assumes "ts \<noteq> 0" "length es = length as" "length is = length as"
    "\<forall>a\<in>set as. - int (length d) \<le> \<lfloor>(a - p) / ts\<rfloor>"
  shows "\<exists>d'. discretise_point p ts as es is d = Inr d'"
  unfolding discretise_point_def using assms by (intro raincell_loop_ok) simp_all

lemma length_selected:
  "length xs = length sel \<Longrightarrow> length (filter snd (zip xs sel)) = length (filter id sel)"
  by (induction xs sel rule: list_induct2) simp_all

lemma set_selected: "set (map fst (filter snd (zip xs sel))) \<subseteq> set xs"
  by (auto dest: set_zip_leftD)

lemma map_length_set_column:
  "length col = length arr \<Longrightarrow> map length (set_column arr yi col) = map length arr"
  by (induction arr col rule: list_induct2') (simp_all add: set_column_def)

lemma discretise_location_ok:
  assumes len: "length es = length as" "length is = length as" "length rx = length as"
      "length ry = length as" "length rr = length as"
    and idx: "idx < length N" "idx < length phi"
    and cols: "list_all (\<lambda>row. idx < length row) arr"
    and ts: "ts \<noteq> 0"
    and early: "\<forall>a\<in>set as. - int (length arr) \<le> \<lfloor>(a - p) / ts\<rfloor>"
  shows "\<exists>arr'. discretise_location p ts as es is rx ry rr E N phi idx arr = Inr arr'
           \<and> map length arr' = map length arr"
proof -
  let ?dist = "\<lambda>cx cy. sqrt ((E ! idx - cx)\<^sup>2 + (N ! idx - cy)\<^sup>2)"
  let ?sel = "map2 (\<lambda>d r. d \<le> r) (map2 ?dist rx ry) rr"
  let ?pick = "\<lambda>xs. map fst (filter snd (zip xs ?sel))"
  have sel_len: "length ?sel = length as" using len by simp
  have e1: "elementwise ?dist rx ry = Inr (map2 ?dist rx ry)"
    using len by (simp add: elementwise_def)
  have e2: "elementwise (\<lambda>d r. d \<le> r) (map2 ?dist rx ry) rr = Inr ?sel"
    using len by (simp add: elementwise_def)
  have b1: "boolean_index as ?sel = Inr (?pick as)"
    using sel_len by (simp add: boolean_index_def)
  have b2: "boolean_index es ?sel = Inr (?pick es)"
    using sel_len len by (simp add: boolean_index_def)
  have b3: "boolean_index is ?sel = Inr (?pick is)"
    using sel_len len by (simp add: boolean_index_def)
  let ?column = "map (\<lambda>row. row ! idx) arr"
  have gc: "get_column arr idx = Inr ?column" using cols by (simp add: get_column_def)
  have l2: "length (?pick es) = length (?pick as)"
    using length_selected [of es ?sel] length_selected [of as ?sel] sel_len len by simp
  have l3: "length (?pick is) = length (?pick as)"
    using length_selected [of "is" ?sel] length_selected [of as ?sel] sel_len len by simp
  have early': "\<forall>a\<in>set (?pick as). - int (length ?column) \<le> \<lfloor>(a - p) / ts\<rfloor>"
  proof
    fix a assume "a \<in> set (?pick as)"
    then have "a \<in> set as" using set_selected [of as ?sel] by blast
    with early show "- int (length ?column) \<le> \<lfloor>(a - p) / ts\<rfloor>" by simp
  qed
  from discretise_point_ok [OF ts l2 l3 early'] obtain column' where
    dp: "discretise_point p ts (?pick as) (?pick es) (?pick is) ?column = Inr column'" by blast
  have lc: "length column' = length arr" using discretise_point_length [OF dp] by simp
  have run: "discretise_location p ts as es is rx ry rr E N phi idx arr =
      Inr (set_column arr idx (map (\<lambda>v. v * phi ! idx) column'))"
    using idx by (simp add: discretise_location_def Let_def bind_err_def e1 e2 b1 b2 b3 gc dp)
  have "map length (set_column arr idx (map (\<lambda>v. v * phi ! idx) column')) = map length arr"
    using lc by (intro map_length_set_column) simp
  with run show ?thesis by simp
qed

lemma list_all_columns:
  "list_all (\<lambda>row. k < length row) arr \<longleftrightarrow> list_all (\<lambda>n. k < n) (map length arr)"
  by (simp add: list_all_iff)

lemma for_each_location_ok:
  assumes len: "length es = length as" "length is = length as" "length rx = length as"
      "length ry = length as" "length rr = length as"
    and ts: "ts \<noteq> 0"
    and ks: "\<forall>k\<in>set ks. k < length N \<and> k < length phi \<and> list_all (\<lambda>row. k < length row) arr"
    and early: "\<forall>a\<in>set as. - int (length arr) \<le> \<lfloor>(a - p) / ts\<rfloor>"
  shows "\<exists>out. for_each (discretise_location p ts as es is rx ry rr E N phi) ks arr = Inr out"
  using ks early
proof (induction ks arbitrary: arr)
  case Nil
  then show ?case by simp
next
  case (Cons k ks)
  from Cons.prems(1) have k: "k < length N" "k < length phi"
    "list_all (\<lambda>row. k < length row) arr" by simp_all
  from discretise_location_ok [OF len k ts Cons.prems(2)] obtain arr1 where
    s: "discretise_location p ts as es is rx ry rr E N phi k arr = Inr arr1"
    and m: "map length arr1 = map length arr" by blast
  from m have l: "length arr1 = length arr" by (rule map_eq_imp_length_eq)
  have "\<forall>k\<in>set ks. k < length N \<and> k < length phi \<and> list_all (\<lambda>row. k < length row) arr1"
    using Cons.prems(1) m by (simp add: list_all_columns)
  moreover have "\<forall>a\<in>set as. - int (length arr1) \<le> \<lfloor>(a - p) / ts\<rfloor>"
    using Cons.prems(2) l by simp
  ultimately obtain out where
    "for_each (discretise_location p ts as es is rx ry rr E N phi) ks arr1 = Inr out"
    using Cons.IH by blast
  then show ?case using s by (simp add: bind_err_def)
qed


lemma discretise_spatial_column:
  assumes len: "length es = length as" "length is = length as" "length rx = length as"
      "length ry = length as" "length rr = length as"
    and idx: "idx < length E" "idx < length N" "idx < length phi"
    and phi: "phi ! idx = 1"
    and j: "j < length as"
    and active: "sqrt ((E ! idx - rx ! j)\<^sup>2 + (N ! idx - ry ! j)\<^sup>2) \<le> rr ! j"
    and others: "\<forall>k<length as. k \<noteq> j \<longrightarrow>
                   rr ! k < sqrt ((E ! idx - rx ! k)\<^sup>2 + (N ! idx - ry ! k)\<^sup>2)"
    and ok: "discretise_spatial p ts as es is arr rx ry rr E N phi = Inr out"
  shows "get_column out idx
           = discretise_point p ts [as ! j] [es ! j] [is ! j] (replicate (length arr) 0)"
proof -
  let ?body = "discretise_location p ts as es is rx ry rr E N phi"
  let ?zero = "map (\<lambda>row. replicate (length row) (0::real)) arr"
  have split: "[0..<length E] = [0..<idx] @ idx # [Suc idx..<length E]"
    using idx(1) by (metis le0 upt_add_eq_append upt_conv_Cons le_add_diff_inverse less_imp_le_nat)
  from ok obtain arr1 arr2 where
    pre: "for_each ?body [0..<idx] ?zero = Inr arr1" and
    at: "?body idx arr1 = Inr arr2" and
    post: "for_each ?body [Suc idx..<length E] arr2 = Inr out"
    unfolding discretise_spatial_def split for_each_append
    by (auto simp: bind_err_Inr_iff)
  have l1: "length arr1 = length arr"
    using for_each_location_frame(1) [OF pre] by simp
  have "get_column out idx = get_column arr2 idx"
    using for_each_location_frame(2) [OF post, of idx] by simp
  also have "\<dots> = discretise_point p ts [as ! j] [es ! j] [is ! j] (replicate (length arr1) 0)"
    by (rule discretise_location_single_active [OF len idx(2,3) phi j active others at])
  finally show ?thesis using l1 by simp
qed

lemma discretise_spatial_ok:
  assumes len: "length es = length as" "length is = length as" "length rx = length as"
      "length ry = length as" "length rr = length as"
    and locs: "length E \<le> length N" "length E \<le> length phi"
    and cols: "list_all (\<lambda>row. length E \<le> length row) arr"
    and ts: "ts \<noteq> 0"
    and early: "list_all (\<lambda>a. - int (length arr) \<le> \<lfloor>(a - p) / ts\<rfloor>) as"
  shows "\<exists>out. discretise_spatial p ts as es is arr rx ry rr E N phi = Inr out"
proof -
  let ?zero = "map (\<lambda>row. replicate (length row) (0::real)) arr"
  have ks: "\<forall>k\<in>set [0..<length E].
      k < length N \<and> k < length phi \<and> list_all (\<lambda>row. k < length row) ?zero"
    using locs cols by (auto simp: list_all_iff)
  have early': "\<forall>a\<in>set as. - int (length ?zero) \<le> \<lfloor>(a - p) / ts\<rfloor>"
    using early by (simp add: list_all_iff)
  from for_each_location_ok [OF len ts ks early'] show ?thesis
    by (simp add: discretise_spatial_def)
qed

text \<open>
  Claim C3. The raincell arrays are aligned, the location \<open>idx\<close> is one of the locations,
  every location has a northing, a phi and a column in the output array, the timestep
  length is not zero and no raincell arrives more than the array's number of timesteps
  before the period start (so that every access of the kernel is inside its array). Then
  the spatial discretisation returns; and at a location with phi = 1, when raincell \<open>j\<close>
  is the only one whose radius is at least the distance from its centre to the location,
  the column of that location in the result is the array that the point discretisation
  of raincell \<open>j\<close> alone returns on as many timesteps. Membership is the test
  distance \<open>\<le>\<close> radius, and the column is multiplied by phi after the point
  discretisation.
\<close>

theorem discretise_spatial_single_active_raincell:
  assumes len: "length raincell_end_times = length raincell_arrival_times"
      "length raincell_intensities = length raincell_arrival_times"
      "length raincell_x_coords = length raincell_arrival_times"
      "length raincell_y_coords = length raincell_arrival_times"
      "length raincell_radii = length raincell_arrival_times"
    and idx: "idx < length point_eastings"
    and locs: "length point_eastings \<le> length point_northings"
      "length point_eastings \<le> length point_phi"
    and cols: "list_all (\<lambda>row. length point_eastings \<le> length row) discrete_rainfall"
    and ts: "timestep_length \<noteq> 0"
    and early: "list_all (\<lambda>arrival_time. - int (length discrete_rainfall)
                  \<le> \<lfloor>(arrival_time - period_start_time) / timestep_length\<rfloor>)
                raincell_arrival_times"
    and phi: "point_phi ! idx = 1"
    and j: "j < length raincell_arrival_times"
    and active: "raincell_radii ! j \<ge>
        sqrt ((point_eastings ! idx - raincell_x_coords ! j)\<^sup>2
              + (point_northings ! idx - raincell_y_coords ! j)\<^sup>2)"
    and others: "\<forall>k<length raincell_arrival_times. k \<noteq> j \<longrightarrow>
        raincell_radii ! k <
          sqrt ((point_eastings ! idx - raincell_x_coords ! k)\<^sup>2
                + (point_northings ! idx - raincell_y_coords ! k)\<^sup>2)"
  shows "\<exists>out column.
           discretise_spatial period_start_time timestep_length raincell_arrival_times
             raincell_end_times raincell_intensities discrete_rainfall raincell_x_coords
             raincell_y_coords raincell_radii point_eastings point_northings point_phi = Inr out
           \<and> get_column out idx = Inr column
           \<and> discretise_point period_start_time timestep_length [raincell_arrival_times ! j]
               [raincell_end_times ! j] [raincell_intensities ! j]
               (replicate (length discrete_rainfall) 0) = Inr column"
proof -
  from discretise_spatial_ok [OF len locs cols ts early] obtain out where
    out: "discretise_spatial period_start_time timestep_length raincell_arrival_times
             raincell_end_times raincell_intensities discrete_rainfall raincell_x_coords
             raincell_y_coords raincell_radii point_eastings point_northings point_phi = Inr out"
    by blast
  have idx': "idx < length point_northings" "idx < length point_phi" using idx locs by simp_all
  have col: "get_column out idx =
      discretise_point period_start_time timestep_length [raincell_arrival_times ! j]
        [raincell_end_times ! j] [raincell_intensities ! j]
        (replicate (length discrete_rainfall) 0)"
    by (rule discretise_spatial_column [OF len idx idx' phi j active others out])
  have "- int (length discrete_rainfall)
          \<le> \<lfloor>(raincell_arrival_times ! j - period_start_time) / timestep_length\<rfloor>"
    using early j by (simp add: list_all_length)
  then have "\<forall>a\<in>set [raincell_arrival_times ! j].
      - int (length (replicate (length discrete_rainfall) (0::real)))
        \<le> \<lfloor>(a - period_start_time) / timestep_length\<rfloor>" by simp
  from discretise_point_ok [OF ts _ _ this, of "[raincell_end_times ! j]"
      "[raincell_intensities ! j]"]
  obtain column where
    dp: "discretise_point period_start_time timestep_length [raincell_arrival_times ! j]
        [raincell_end_times ! j] [raincell_intensities ! j]
        (replicate (length discrete_rainfall) 0) = Inr column" by auto
  from col dp have gc: "get_column out idx = Inr column" by simp
  show ?thesis by (intro exI [of _ out] exI [of _ column] conjI) (fact out gc dp)+
qed

text \<open>
  The theorem at two raincells and two locations, two timesteps: at location 0 only
  raincell 0 is active.
\<close>

theorem discretise_spatial_single_active_raincell_witness:
  "discretise_spatial 0 1 [0, 0] [3 / 2, 1] [2, 5] [[0, 0], [0, 0]] [0, 2] [0, 0] [1, 1]
      [0, 2] [0, 0] [1, 2] = Inr [[2, 10], [1, 0]]
   \<and> get_column [[2, 10], [1, 0]] 0 = Inr [2, 1]
   \<and> discretise_point 0 1 [0] [3 / 2] [2] [0, 0] = Inr [2, 1]"
proof -
  have run: "discretise_spatial 0 1 [0, 0] [3 / 2, 1] [2, 5] [[0, 0], [0, 0]] [0, 2] [0, 0] [1, 1]
      [0, 2] [0, 0] [1, 2] = Inr [[2, 10], [1, 0]]"
    by (simp add: discretise_spatial_def discretise_location_def elementwise_def
        boolean_index_def get_column_def set_column_def bind_err_def discretise_point_def
        discretise_raincell_def accumulate_def upto_rec1 upt_conv_Cons Let_def del: upt_Suc)
  have gc: "get_column [[2, 10], [1, 0]] 0 = Inr [2, 1]" by (simp add: get_column_def)
  have others: "\<forall>k<length [0, 0::real]. k \<noteq> 0 \<longrightarrow>
      [1, 1::real] ! k < sqrt (([0, 2] ! 0 - [0, 2::real] ! k)\<^sup>2 + ([0, 0] ! 0 - [0, 0::real] ! k)\<^sup>2)"
    by (auto simp: less_Suc_eq)
  have "\<exists>out column.
      discretise_spatial 0 1 [0, 0] [3 / 2, 1] [2, 5] [[0, 0], [0, 0]] [0, 2] [0, 0] [1, 1]
        [0, 2] [0, 0] [1, 2] = Inr out
      \<and> get_column out 0 = Inr column
      \<and> discretise_point 0 1 [[0, 0] ! 0] [[3 / 2, 1] ! 0] [[2, 5] ! 0]
          (replicate (length [[0, 0], [0, 0::real]]) 0) = Inr column"
    by (rule discretise_spatial_single_active_raincell [where j = 0, OF _ _ _ _ _ _ _ _ _ _ _ _ _ _ others])
      simp_all
  then have "discretise_point 0 1 [0] [3 / 2] [2] [0, 0] = Inr [2, 1]"
    using run gc by (elim exE conjE) (simp add: numeral_2_eq_2)
  with run gc show ?thesis by simp
qed


subsection \<open>Block sizing\<close>

lemma block_condition_iff:
  assumes "0 < (bs::int)"
  shows "int b * bs < n \<longleftrightarrow> b < nat ((n + bs - 1) div bs)"
proof
  assume lt: "int b * bs < n"
  then have "(int b + 1) * bs \<le> n + bs - 1" by (simp add: algebra_simps)
  then have "((int b + 1) * bs) div bs \<le> (n + bs - 1) div bs"
    using assms by (intro zdiv_mono1) simp_all
  then have "int b + 1 \<le> (n + bs - 1) div bs" using assms by simp
  then show "b < nat ((n + bs - 1) div bs)" by linarith
next
  assume "b < nat ((n + bs - 1) div bs)"
  then have "int b + 1 \<le> (n + bs - 1) div bs" by linarith
  then have "(int b + 1) * bs \<le> ((n + bs - 1) div bs) * bs"
    using assms by (intro mult_right_mono) simp_all
  also have "\<dots> \<le> n + bs - 1"
    using assms by (metis add.commute add_0 add_le_cancel_left mult.commute mult_div_mod_eq pos_mod_sign)
  finally show "int b * bs < n" by (simp add: algebra_simps)
qed

lemma sizing_loop_done:
  "\<not> block_id * block_size < number_of_years \<Longrightarrow>
   sizing_loop c seed_sequence datetime_helper number_of_years attempt block_size block_id rng
     calls = Some (calls, Inr block_size)"
  by (subst sizing_loop.simps) simp

lemma sizing_loop_retry:
  assumes "block_id * block_size < number_of_years"
    and "nsproc_main c (py_slice (map n_hours datetime_helper) (block_id * block_size * 12)
           ((block_id + 1) * block_size * 12)) rng = (Table df, rng')"
    and "allocate c attempt = NoMemory"
  shows "sizing_loop c seed_sequence datetime_helper number_of_years attempt block_size block_id
           rng calls =
         sizing_loop c seed_sequence datetime_helper number_of_years (Suc attempt)
           (block_size div 2) 0 (default_rng c seed_sequence)
           (calls @ [\<lparr>call_block_size = block_size, call_block_id = block_id,
                       call_month_lengths = py_slice (map n_hours datetime_helper)
                         (block_id * block_size * 12) ((block_id + 1) * block_size * 12),
                       call_rng = rng\<rparr>])"
  using assms by (subst sizing_loop.simps) (simp add: Let_def)

lemma sizing_loop_advance:
  assumes "block_id * block_size < number_of_years"
    and "nsproc_main c (py_slice (map n_hours datetime_helper) (block_id * block_size * 12)
           ((block_id + 1) * block_size * 12)) rng = (Table df, rng')"
    and "allocate c attempt = Allocated"
  shows "sizing_loop c seed_sequence datetime_helper number_of_years attempt block_size block_id
           rng calls =
         sizing_loop c seed_sequence datetime_helper number_of_years (Suc attempt)
           block_size (block_id + 1) rng'
           (calls @ [\<lparr>call_block_size = block_size, call_block_id = block_id,
                       call_month_lengths = py_slice (map n_hours datetime_helper)
                         (block_id * block_size * 12) ((block_id + 1) * block_size * 12),
                       call_rng = rng\<rparr>])"
  using assms by (subst sizing_loop.simps) (simp add: Let_def)

lemma sizing_failing_phase:
  assumes gen: "\<And>ml g. \<exists>df g'. nsproc_main c ml g = (Table df, g')"
    and fail: "\<And>k. k < m \<Longrightarrow> allocate c k = NoMemory"
    and n: "0 < number_of_years"
    and j: "j \<le> m"
  shows "sizing_loop c seed_sequence datetime_helper number_of_years 0 bs0 0
           (default_rng c seed_sequence) [] =
         sizing_loop c seed_sequence datetime_helper number_of_years j (bs0 div 2 ^ j) 0
           (default_rng c seed_sequence)
           (map (\<lambda>k. \<lparr>call_block_size = bs0 div 2 ^ k, call_block_id = 0,
                       call_month_lengths =
                         py_slice (map n_hours datetime_helper) 0 (bs0 div 2 ^ k * 12),
                       call_rng = default_rng c seed_sequence\<rparr>) [0..<j])"
  using j
proof (induction j)
  case 0
  then show ?case by simp
next
  case (Suc j)
  let ?bs = "bs0 div 2 ^ j"
  from gen obtain df g' where
    g: "nsproc_main c (py_slice (map n_hours datetime_helper) (0 * ?bs * 12) ((0 + 1) * ?bs * 12))
          (default_rng c seed_sequence) = (Table df, g')"
    by blast
  have a: "allocate c j = NoMemory" using Suc.prems fail by simp
  have c0: "(0::int) * ?bs < number_of_years" using n by simp
  have half: "?bs div 2 = bs0 div 2 ^ Suc j"
  proof -
    have "bs0 div 2 ^ Suc j = bs0 div (2 ^ j * 2)" by (simp add: mult.commute)
    also have "\<dots> = bs0 div 2 ^ j div 2" by (rule zdiv_zmult2_eq) simp
    finally show ?thesis by simp
  qed
  show ?case
    using Suc.IH Suc.prems sizing_loop_retry [OF c0 g a, of seed_sequence]
    by (simp add: half)
qed


lemma length_py_slice_le:
  "0 \<le> i \<Longrightarrow> 0 \<le> j \<Longrightarrow> length (py_slice xs i j) \<le> nat (j - i)"
  by (auto simp: py_slice_def Let_def)

lemma sizing_success_phase:
  assumes gen: "\<And>b g. \<exists>df g'. nsproc_main c (py_slice (map n_hours datetime_helper)
                   (int b * bs * 12) ((int b + 1) * bs * 12)) g = (Table df, g')"
    and ok: "\<And>k. m \<le> k \<Longrightarrow> allocate c k = Allocated"
    and bs: "0 < bs"
    and a: "m \<le> a"
  shows "\<exists>calls'. sizing_loop c seed_sequence datetime_helper number_of_years a bs (int b) r calls
              = Some (calls @ calls', Inr bs)
           \<and> map (\<lambda>x. (call_block_size x, call_block_id x, call_month_lengths x)) calls'
              = map (\<lambda>b'. (bs, int b',
                     py_slice (map n_hours datetime_helper) (int b' * bs * 12)
                       ((int b' + 1) * bs * 12)))
                  [b..<nat ((number_of_years + bs - 1) div bs)]
           \<and> (calls' = [] \<or> call_rng (hd calls') = r)"
  using a
proof (induction "nat ((number_of_years + bs - 1) div bs) - b" arbitrary: a b r calls)
  case 0
  then have "\<not> b < nat ((number_of_years + bs - 1) div bs)" by simp
  then have "\<not> int b * bs < number_of_years" using block_condition_iff [OF bs] by simp
  then show ?case using 0 by (simp add: sizing_loop_done)
next
  case (Suc d)
  let ?nb = "nat ((number_of_years + bs - 1) div bs)"
  let ?ml = "py_slice (map n_hours datetime_helper) (int b * bs * 12) ((int b + 1) * bs * 12)"
  let ?call = "\<lparr>call_block_size = bs, call_block_id = int b, call_month_lengths = ?ml,
                 call_rng = r\<rparr>"
  from Suc.hyps(2) have lt: "b < ?nb" by simp
  then have cond: "int b * bs < number_of_years" using block_condition_iff [OF bs] by simp
  from gen obtain df g' where g: "nsproc_main c ?ml r = (Table df, g')" by blast
  have al: "allocate c a = Allocated" using ok Suc.prems by simp
  have step: "sizing_loop c seed_sequence datetime_helper number_of_years a bs (int b) r calls
      = sizing_loop c seed_sequence datetime_helper number_of_years (Suc a) bs (int (Suc b)) g'
          (calls @ [?call])"
    using sizing_loop_advance [OF cond g al, of seed_sequence calls] by (simp add: add.commute)
  have d: "d = ?nb - Suc b" using Suc.hyps(2) by simp
  have a': "m \<le> Suc a" using Suc.prems by simp
  from Suc.hyps(1) [OF d a', of g' "calls @ [?call]"]
  obtain calls' where
    r: "sizing_loop c seed_sequence datetime_helper number_of_years (Suc a) bs (int (Suc b)) g'
          (calls @ [?call]) = Some ((calls @ [?call]) @ calls', Inr bs)"
    and mp: "map (\<lambda>x. (call_block_size x, call_block_id x, call_month_lengths x)) calls'
              = map (\<lambda>b'. (bs, int b',
                     py_slice (map n_hours datetime_helper) (int b' * bs * 12)
                       ((int b' + 1) * bs * 12))) [Suc b..<?nb]"
    by blast
  have up: "[b..<?nb] = b # [Suc b..<?nb]" using lt by (simp add: upt_conv_Cons)
  show ?case
  proof (intro exI [of _ "?call # calls'"] conjI)
    show "sizing_loop c seed_sequence datetime_helper number_of_years a bs (int b) r calls
            = Some (calls @ ?call # calls', Inr bs)"
      using step r by simp
    show "map (\<lambda>x. (call_block_size x, call_block_id x, call_month_lengths x)) (?call # calls')
            = map (\<lambda>b'. (bs, int b',
                     py_slice (map n_hours datetime_helper) (int b' * bs * 12)
                       ((int b' + 1) * bs * 12))) [b..<?nb]"
      unfolding up using mp by simp
    show "?call # calls' = [] \<or> call_rng (hd (?call # calls')) = r" by simp
  qed
qed

lemma sizing_loop_memory_failure:
  assumes "block_id * block_size < number_of_years"
    and "fst (nsproc_main c (py_slice (map n_hours datetime_helper) (block_id * block_size * 12)
           ((block_id + 1) * block_size * 12)) rng) = RaisesMemoryError
         \<or> (\<exists>df. fst (nsproc_main c (py_slice (map n_hours datetime_helper)
                (block_id * block_size * 12) ((block_id + 1) * block_size * 12)) rng) = Table df)
           \<and> allocate c attempt = NoMemory"
  shows "sizing_loop c seed_sequence datetime_helper number_of_years attempt block_size block_id
           rng calls =
         sizing_loop c seed_sequence datetime_helper number_of_years (Suc attempt)
           (block_size div 2) 0 (default_rng c seed_sequence)
           (calls @ [\<lparr>call_block_size = block_size, call_block_id = block_id,
                       call_month_lengths = py_slice (map n_hours datetime_helper)
                         (block_id * block_size * 12) ((block_id + 1) * block_size * 12),
                       call_rng = rng\<rparr>])"
  using assms
  by (subst sizing_loop.simps) (auto simp: Let_def split: prod.splits generated.splits)

lemma sizing_last_failure:
  fixes c :: "('seq, 'g) collaborators"
  assumes cond: "block_id * block_size < number_of_years"
    and bid: "0 \<le> block_id"
    and pos: "0 < block_size div 2"
    and fail: "fst (nsproc_main c (py_slice (map n_hours datetime_helper)
           (block_id * block_size * 12) ((block_id + 1) * block_size * 12)) rng)
           = RaisesMemoryError
         \<or> (\<exists>df. fst (nsproc_main c (py_slice (map n_hours datetime_helper)
                (block_id * block_size * 12) ((block_id + 1) * block_size * 12)) rng) = Table df)
           \<and> allocate c attempt = NoMemory"
    and later: "\<And>k. attempt < k \<Longrightarrow> allocate c k = Allocated"
    and gen: "\<And>ml g. length ml \<le> nat (block_size div 2 * 12)
                \<Longrightarrow> \<exists>df g'. nsproc_main c ml g = (Table df, g')"
  shows "\<exists>calls'.
      sizing_loop c seed_sequence datetime_helper number_of_years attempt block_size block_id
        rng calls
        = Some (calls @ \<lparr>call_block_size = block_size, call_block_id = block_id,
                       call_month_lengths = py_slice (map n_hours datetime_helper)
                         (block_id * block_size * 12) ((block_id + 1) * block_size * 12),
                       call_rng = rng\<rparr> # calls', Inr (block_size div 2))
    \<and> map (\<lambda>x. (call_block_size x, call_block_id x, call_month_lengths x)) calls'
        = map (\<lambda>b. (block_size div 2, int b,
                 py_slice (map n_hours datetime_helper) (int b * (block_size div 2) * 12)
                   ((int b + 1) * (block_size div 2) * 12)))
            [0..<nat ((number_of_years + block_size div 2 - 1) div (block_size div 2))]
    \<and> calls' \<noteq> []
    \<and> call_rng (hd calls') = default_rng c seed_sequence"
proof -
  let ?bs = "block_size div 2"
  let ?call = "\<lparr>call_block_size = block_size, call_block_id = block_id,
                       call_month_lengths = py_slice (map n_hours datetime_helper)
                         (block_id * block_size * 12) ((block_id + 1) * block_size * 12),
                       call_rng = rng\<rparr>"
  have step: "sizing_loop c seed_sequence datetime_helper number_of_years attempt block_size
      block_id rng calls
      = sizing_loop c seed_sequence datetime_helper number_of_years (Suc attempt) ?bs 0
          (default_rng c seed_sequence) (calls @ [?call])"
    by (rule sizing_loop_memory_failure [OF cond fail])
  have gen': "\<exists>df g'. nsproc_main c (py_slice (map n_hours datetime_helper)
                   (int b * ?bs * 12) ((int b + 1) * ?bs * 12)) g = (Table df, g')" for b g
  proof (rule gen)
    have "0 \<le> int b * ?bs * 12" "0 \<le> (int b + 1) * ?bs * 12" using pos by simp_all
    from length_py_slice_le [OF this, of "map n_hours datetime_helper"]
    show "length (py_slice (map n_hours datetime_helper) (int b * ?bs * 12)
            ((int b + 1) * ?bs * 12)) \<le> nat (?bs * 12)"
      by (simp add: algebra_simps)
  qed
  have ok: "\<And>k. Suc attempt \<le> k \<Longrightarrow> allocate c k = Allocated" using later by simp
  from sizing_success_phase [OF gen' ok pos order_refl, where b = 0
      and r = "default_rng c seed_sequence" and calls = "calls @ [?call]"
      and seed_sequence = seed_sequence and number_of_years = number_of_years]
  obtain calls' where
    r: "sizing_loop c seed_sequence datetime_helper number_of_years (Suc attempt) ?bs 0
          (default_rng c seed_sequence) (calls @ [?call])
          = Some ((calls @ [?call]) @ calls', Inr ?bs)"
    and mp: "map (\<lambda>x. (call_block_size x, call_block_id x, call_month_lengths x)) calls'
              = map (\<lambda>b'. (?bs, int b',
                     py_slice (map n_hours datetime_helper) (int b' * ?bs * 12)
                       ((int b' + 1) * ?bs * 12)))
                  [0..<nat ((number_of_years + ?bs - 1) div ?bs)]"
    and hd: "calls' = [] \<or> call_rng (hd calls') = default_rng c seed_sequence"
    by auto
  have "0 \<le> block_id * block_size" using bid pos by simp
  with cond have n: "0 < number_of_years" by simp
  have "0 < nat ((number_of_years + ?bs - 1) div ?bs)"
    using block_condition_iff [OF pos, of 0 number_of_years] n by simp
  then have ne: "calls' \<noteq> []" using mp by auto
  with hd have rng: "call_rng (hd calls') = default_rng c seed_sequence" by simp
  have res: "sizing_loop c seed_sequence datetime_helper number_of_years attempt block_size
      block_id rng calls = Some (calls @ ?call # calls', Inr ?bs)"
    using step r by simp
  show ?thesis by (intro exI [of _ calls'] conjI) (fact res mp ne rng)+
qed


lemma sizing_phase_trace:
  fixes c :: "('seq, 'g) collaborators"
  assumes gen: "\<And>ml g. \<exists>df g'. nsproc_main c ml g = (Table df, g')"
    and al: "\<And>k. allocate c k = (if k < m then NoMemory else Allocated)"
    and n: "0 < number_of_years"
    and bs: "0 < min number_of_years 1000 div 2 ^ m"
  shows "\<exists>calls.
      sizing_phase c seed_sequence datetime_helper number_of_years
        = Some (calls, Inr (min number_of_years 1000 div 2 ^ m))
    \<and> map (\<lambda>x. (call_block_size x, call_block_id x, call_month_lengths x)) calls
        = map (\<lambda>k. (min number_of_years 1000 div 2 ^ k, 0,
                 py_slice (map n_hours datetime_helper) 0
                   (min number_of_years 1000 div 2 ^ k * 12))) [0..<m]
          @ map (\<lambda>b. (min number_of_years 1000 div 2 ^ m, int b,
                   py_slice (map n_hours datetime_helper)
                     (int b * (min number_of_years 1000 div 2 ^ m) * 12)
                     ((int b + 1) * (min number_of_years 1000 div 2 ^ m) * 12)))
              [0..<nat ((number_of_years + min number_of_years 1000 div 2 ^ m - 1)
                          div (min number_of_years 1000 div 2 ^ m))]
    \<and> (\<forall>k\<le>m. call_rng (calls ! k) = default_rng c seed_sequence)"
proof -
  let ?start = "min number_of_years 1000"
  let ?bs = "?start div 2 ^ m"
  let ?init = "default_rng c seed_sequence"
  let ?fails = "map (\<lambda>k. \<lparr>call_block_size = ?start div 2 ^ k, call_block_id = 0,
                       call_month_lengths =
                         py_slice (map n_hours datetime_helper) 0 (?start div 2 ^ k * 12),
                       call_rng = ?init\<rparr>) [0..<m]"
  have f: "\<And>k. k < m \<Longrightarrow> allocate c k = NoMemory" using al by simp
  have s: "\<And>k. m \<le> k \<Longrightarrow> allocate c k = Allocated" using al by simp
  have first: "sizing_phase c seed_sequence datetime_helper number_of_years
      = sizing_loop c seed_sequence datetime_helper number_of_years m ?bs 0 ?init ?fails"
    unfolding sizing_phase_def
    by (rule sizing_failing_phase [OF gen f n order_refl])
  from sizing_success_phase [OF gen s bs order_refl, where b = 0 and r = ?init
      and calls = ?fails and seed_sequence = seed_sequence
      and number_of_years = number_of_years]
  obtain calls' where
    r: "sizing_loop c seed_sequence datetime_helper number_of_years m ?bs 0 ?init ?fails
          = Some (?fails @ calls', Inr ?bs)"
    and mp: "map (\<lambda>x. (call_block_size x, call_block_id x, call_month_lengths x)) calls'
              = map (\<lambda>b'. (?bs, int b',
                     py_slice (map n_hours datetime_helper) (int b' * ?bs * 12)
                       ((int b' + 1) * ?bs * 12)))
                  [0..<nat ((number_of_years + ?bs - 1) div ?bs)]"
    and hd: "calls' = [] \<or> call_rng (hd calls') = ?init"
    by auto
  have "0 < nat ((number_of_years + ?bs - 1) div ?bs)"
    using block_condition_iff [OF bs, of 0 number_of_years] n by simp
  then have ne: "calls' \<noteq> []" using mp by auto
  have rngs: "call_rng ((?fails @ calls') ! k) = ?init" if "k \<le> m" for k
  proof (cases "k < m")
    case True
    then show ?thesis by (simp add: nth_append)
  next
    case False
    with that have "k = m" by simp
    then show ?thesis using hd ne by (simp add: nth_append hd_conv_nth)
  qed
  show ?thesis
  proof (intro exI [of _ "?fails @ calls'"] conjI allI impI)
    show "sizing_phase c seed_sequence datetime_helper number_of_years
            = Some (?fails @ calls', Inr ?bs)"
      using first r by simp
    show "map (\<lambda>x. (call_block_size x, call_block_id x, call_month_lengths x)) (?fails @ calls')
        = map (\<lambda>k. (?start div 2 ^ k, 0,
                 py_slice (map n_hours datetime_helper) 0 (?start div 2 ^ k * 12))) [0..<m]
          @ map (\<lambda>b. (?bs, int b,
                   py_slice (map n_hours datetime_helper) (int b * ?bs * 12)
                     ((int b + 1) * ?bs * 12)))
              [0..<nat ((number_of_years + ?bs - 1) div ?bs)]"
      using mp by (simp add: comp_def)
    fix k assume "k \<le> m"
    then show "call_rng ((?fails @ calls') ! k) = ?init" by (rule rngs)
  qed
qed


lemma upt_0_3: "[0..<3] = [0, 1, 2]" by code_simp
lemma upt_0_9: "[0..<9] = [0, 1, 2, 3, 4, 5, 6, 7, 8]" by code_simp

lemma length_py_slice:
  "0 \<le> i \<Longrightarrow> length (py_slice xs i j)
     = nat ((if j < 0 then max 0 (int (length xs) + j) else min j (int (length xs)))
            - min i (int (length xs)))"
  by (auto simp: py_slice_def Let_def)

lemma sizing_900_years:
  fixes c :: "('seq, 'g) collaborators"
  assumes gen: "\<And>ml g. \<exists>df g'. nsproc_main c ml g = (Table df, g')"
    and al: "\<And>k. allocate c k = (if k < 3 then NoMemory else Allocated)"
    and len: "length datetime_helper = 10800"
  shows "\<exists>calls.
      sizing_phase c seed_sequence datetime_helper 900 = Some (calls, Inr 112)
    \<and> map call_block_size calls = [900, 450, 225, 112, 112, 112, 112, 112, 112, 112, 112, 112]
    \<and> map call_block_id calls = [0, 0, 0, 0, 1, 2, 3, 4, 5, 6, 7, 8]
    \<and> map (\<lambda>x. length (call_month_lengths x)) calls
         = [10800, 5400, 2700, 1344, 1344, 1344, 1344, 1344, 1344, 1344, 1344, 48]
    \<and> (\<forall>k\<le>3. call_rng (calls ! k) = default_rng c seed_sequence)"
proof -
  have bs: "(0::int) < min 900 1000 div 2 ^ 3" by simp
  from sizing_phase_trace [OF gen al _ bs, of seed_sequence datetime_helper]
  obtain calls where
    r: "sizing_phase c seed_sequence datetime_helper 900 = Some (calls, Inr 112)"
    and mp: "map (\<lambda>x. (call_block_size x, call_block_id x, call_month_lengths x)) calls
        = map (\<lambda>k. (900 div 2 ^ k, 0,
                 py_slice (map n_hours datetime_helper) 0 (900 div 2 ^ k * 12))) [0..<3]
          @ map (\<lambda>b. (112, int b,
                   py_slice (map n_hours datetime_helper) (int b * 112 * 12)
                     ((int b + 1) * 112 * 12))) [0..<9]"
    and rng: "\<forall>k\<le>3. call_rng (calls ! k) = default_rng c seed_sequence"
    by auto
  let ?proj = "\<lambda>x. (call_block_size x, call_block_id x, call_month_lengths x)"
  let ?trace = "map (\<lambda>k. ((900::int) div 2 ^ k, 0::int,
                 py_slice (map n_hours datetime_helper) 0 (900 div 2 ^ k * 12))) [0..<3]
          @ map (\<lambda>b. (112::int, int b,
                   py_slice (map n_hours datetime_helper) (int b * 112 * 12)
                     ((int b + 1) * 112 * 12))) [0..<9]"
  have "map call_block_size calls = map fst (map ?proj calls)" by (simp add: comp_def)
  also have "\<dots> = map fst ?trace" by (simp only: mp)
  also have "\<dots> = [900, 450, 225, 112, 112, 112, 112, 112, 112, 112, 112, 112]"
    by (simp add: upt_0_3 upt_0_9)
  finally have sizes: "map call_block_size calls
      = [900, 450, 225, 112, 112, 112, 112, 112, 112, 112, 112, 112]" .
  have "map call_block_id calls = map (fst \<circ> snd) (map ?proj calls)" by (simp add: comp_def)
  also have "\<dots> = map (fst \<circ> snd) ?trace" by (simp only: mp)
  also have "\<dots> = [0, 0, 0, 0, 1, 2, 3, 4, 5, 6, 7, 8]"
    by (simp add: upt_0_3 upt_0_9)
  finally have ids: "map call_block_id calls = [0, 0, 0, 0, 1, 2, 3, 4, 5, 6, 7, 8]" .
  have "map (\<lambda>x. length (call_month_lengths x)) calls
      = map (length \<circ> snd \<circ> snd) (map ?proj calls)"
    by (simp add: comp_def)
  also have "\<dots> = map (length \<circ> snd \<circ> snd) ?trace" by (simp only: mp)
  also have "\<dots> = [10800, 5400, 2700, 1344, 1344, 1344, 1344, 1344, 1344, 1344, 1344, 48]"
    by (simp add: upt_0_3 upt_0_9 length_py_slice len)
  finally have months: "map (\<lambda>x. length (call_month_lengths x)) calls
      = [10800, 5400, 2700, 1344, 1344, 1344, 1344, 1344, 1344, 1344, 1344, 48]" .
  show ?thesis
    by (intro exI [of _ calls] conjI) (fact r sizes ids months rng)+
qed


text \<open>
  Claim C4, amended. In whatever state the sizing loop is, a memory failure in a pass,
  be it raised by the raincell generator or by the allocation after it and at whichever
  block, halves the block size (rounding down), puts the block counter back to 0 and
  makes the generator anew from the seed sequence, and the loop goes on from there. When
  every later pass succeeds (the generator has memory for the blocks of the halved size)
  and the halved size is positive, the loop ends on the halved size after probing every
  block of that size once, from block 0 and with the new generator. From its start at
  min(number of years, 1000) years, when the first \<open>m\<close> allocations fail and the later
  ones succeed, the loop settles on min(number of years, 1000) div 2^m if that is
  positive, after probing every block of that size once. For 900 years and three
  failures it starts at 900, goes through 450 and 225, settles on 112 and probes 9
  blocks: eight of 1344 months (112 years) and one of 48 months (4 years).
\<close>

theorem sizing_halves_from_the_capped_run_length:
  fixes c :: "('seq, 'g) collaborators"
  shows "(block_id * block_size < number_of_years
          \<and> (fst (nsproc_main c (py_slice (map n_hours datetime_helper)
                   (block_id * block_size * 12) ((block_id + 1) * block_size * 12)) rng)
                = RaisesMemoryError
              \<or> (\<exists>df. fst (nsproc_main c (py_slice (map n_hours datetime_helper)
                     (block_id * block_size * 12) ((block_id + 1) * block_size * 12)) rng)
                   = Table df)
                \<and> allocate c attempt = NoMemory) \<longrightarrow>
          sizing_loop c seed_sequence datetime_helper number_of_years attempt block_size block_id
            rng calls
          = sizing_loop c seed_sequence datetime_helper number_of_years (Suc attempt)
              (block_size div 2) 0 (default_rng c seed_sequence)
              (calls @ [\<lparr>call_block_size = block_size, call_block_id = block_id,
                          call_month_lengths = py_slice (map n_hours datetime_helper)
                            (block_id * block_size * 12) ((block_id + 1) * block_size * 12),
                          call_rng = rng\<rparr>]))
       \<and> (block_id * block_size < number_of_years \<and> 0 \<le> block_id \<and> 0 < block_size div 2
          \<and> (fst (nsproc_main c (py_slice (map n_hours datetime_helper)
                   (block_id * block_size * 12) ((block_id + 1) * block_size * 12)) rng)
                = RaisesMemoryError
              \<or> (\<exists>df. fst (nsproc_main c (py_slice (map n_hours datetime_helper)
                     (block_id * block_size * 12) ((block_id + 1) * block_size * 12)) rng)
                   = Table df)
                \<and> allocate c attempt = NoMemory)
          \<and> (\<forall>k>attempt. allocate c k = Allocated)
          \<and> (\<forall>ml g. length ml \<le> nat (block_size div 2 * 12)
                \<longrightarrow> (\<exists>df g'. nsproc_main c ml g = (Table df, g'))) \<longrightarrow>
          (\<exists>calls'.
              sizing_loop c seed_sequence datetime_helper number_of_years attempt block_size
                block_id rng calls
              = Some (calls @ \<lparr>call_block_size = block_size, call_block_id = block_id,
                          call_month_lengths = py_slice (map n_hours datetime_helper)
                            (block_id * block_size * 12) ((block_id + 1) * block_size * 12),
                          call_rng = rng\<rparr> # calls', Inr (block_size div 2))
            \<and> map (\<lambda>x. (call_block_size x, call_block_id x, call_month_lengths x)) calls'
                = map (\<lambda>b. (block_size div 2, int b,
                         py_slice (map n_hours datetime_helper)
                           (int b * (block_size div 2) * 12)
                           ((int b + 1) * (block_size div 2) * 12)))
                    [0..<nat ((number_of_years + block_size div 2 - 1)
                                div (block_size div 2))]
            \<and> calls' \<noteq> []
            \<and> call_rng (hd calls') = default_rng c seed_sequence))
       \<and> ((\<forall>ml g. \<exists>df g'. nsproc_main c ml g = (Table df, g'))
          \<and> (\<forall>k. allocate c k = (if k < m then NoMemory else Allocated))
          \<and> 0 < number_of_years \<and> 0 < min number_of_years 1000 div 2 ^ m \<longrightarrow>
          (\<exists>calls.
              sizing_phase c seed_sequence datetime_helper number_of_years
                = Some (calls, Inr (min number_of_years 1000 div 2 ^ m))
            \<and> map (\<lambda>x. (call_block_size x, call_block_id x, call_month_lengths x)) calls
                = map (\<lambda>k. (min number_of_years 1000 div 2 ^ k, 0,
                         py_slice (map n_hours datetime_helper) 0
                           (min number_of_years 1000 div 2 ^ k * 12))) [0..<m]
                  @ map (\<lambda>b. (min number_of_years 1000 div 2 ^ m, int b,
                           py_slice (map n_hours datetime_helper)
                             (int b * (min number_of_years 1000 div 2 ^ m) * 12)
                             ((int b + 1) * (min number_of_years 1000 div 2 ^ m) * 12)))
                      [0..<nat ((number_of_years + min number_of_years 1000 div 2 ^ m - 1)
                                  div (min number_of_years 1000 div 2 ^ m))]
            \<and> (\<forall>k\<le>m. call_rng (calls ! k) = default_rng c seed_sequence)))
       \<and> ((\<forall>ml g. \<exists>df g'. nsproc_main c ml g = (Table df, g'))
          \<and> (\<forall>k. allocate c k = (if k < 3 then NoMemory else Allocated))
          \<and> length year_months = 10800 \<longrightarrow>
          (\<exists>calls.
              sizing_phase c seed_sequence year_months 900 = Some (calls, Inr 112)
            \<and> map call_block_size calls
                = [900, 450, 225, 112, 112, 112, 112, 112, 112, 112, 112, 112]
            \<and> map call_block_id calls = [0, 0, 0, 0, 1, 2, 3, 4, 5, 6, 7, 8]
            \<and> map (\<lambda>x. length (call_month_lengths x)) calls
                = [10800, 5400, 2700, 1344, 1344, 1344, 1344, 1344, 1344, 1344, 1344, 48]
            \<and> (\<forall>k\<le>3. call_rng (calls ! k) = default_rng c seed_sequence)))"
proof (intro conjI impI)
  assume h: "block_id * block_size < number_of_years
          \<and> (fst (nsproc_main c (py_slice (map n_hours datetime_helper)
                   (block_id * block_size * 12) ((block_id + 1) * block_size * 12)) rng)
                = RaisesMemoryError
              \<or> (\<exists>df. fst (nsproc_main c (py_slice (map n_hours datetime_helper)
                     (block_id * block_size * 12) ((block_id + 1) * block_size * 12)) rng)
                   = Table df)
                \<and> allocate c attempt = NoMemory)"
  show "sizing_loop c seed_sequence datetime_helper number_of_years attempt block_size block_id
            rng calls
          = sizing_loop c seed_sequence datetime_helper number_of_years (Suc attempt)
              (block_size div 2) 0 (default_rng c seed_sequence)
              (calls @ [\<lparr>call_block_size = block_size, call_block_id = block_id,
                          call_month_lengths = py_slice (map n_hours datetime_helper)
                            (block_id * block_size * 12) ((block_id + 1) * block_size * 12),
                          call_rng = rng\<rparr>])"
    by (rule sizing_loop_memory_failure [OF h [THEN conjunct1] h [THEN conjunct2]])
next
  assume h: "block_id * block_size < number_of_years \<and> 0 \<le> block_id \<and> 0 < block_size div 2
          \<and> (fst (nsproc_main c (py_slice (map n_hours datetime_helper)
                   (block_id * block_size * 12) ((block_id + 1) * block_size * 12)) rng)
                = RaisesMemoryError
              \<or> (\<exists>df. fst (nsproc_main c (py_slice (map n_hours datetime_helper)
                     (block_id * block_size * 12) ((block_id + 1) * block_size * 12)) rng)
                   = Table df)
                \<and> allocate c attempt = NoMemory)
          \<and> (\<forall>k>attempt. allocate c k = Allocated)
          \<and> (\<forall>ml g. length ml \<le> nat (block_size div 2 * 12)
                \<longrightarrow> (\<exists>df g'. nsproc_main c ml g = (Table df, g')))"
  then have cond: "block_id * block_size < number_of_years" and bid: "0 \<le> block_id"
    and pos: "0 < block_size div 2"
    and fail: "fst (nsproc_main c (py_slice (map n_hours datetime_helper)
                   (block_id * block_size * 12) ((block_id + 1) * block_size * 12)) rng)
                = RaisesMemoryError
              \<or> (\<exists>df. fst (nsproc_main c (py_slice (map n_hours datetime_helper)
                     (block_id * block_size * 12) ((block_id + 1) * block_size * 12)) rng)
                   = Table df)
                \<and> allocate c attempt = NoMemory"
    and later: "\<And>k. attempt < k \<Longrightarrow> allocate c k = Allocated"
    and gen: "\<And>ml g. length ml \<le> nat (block_size div 2 * 12)
                \<Longrightarrow> \<exists>df g'. nsproc_main c ml g = (Table df, g')"
    by simp_all
  show "\<exists>calls'.
              sizing_loop c seed_sequence datetime_helper number_of_years attempt block_size
                block_id rng calls
              = Some (calls @ \<lparr>call_block_size = block_size, call_block_id = block_id,
                          call_month_lengths = py_slice (map n_hours datetime_helper)
                            (block_id * block_size * 12) ((block_id + 1) * block_size * 12),
                          call_rng = rng\<rparr> # calls', Inr (block_size div 2))
            \<and> map (\<lambda>x. (call_block_size x, call_block_id x, call_month_lengths x)) calls'
                = map (\<lambda>b. (block_size div 2, int b,
                         py_slice (map n_hours datetime_helper)
                           (int b * (block_size div 2) * 12)
                           ((int b + 1) * (block_size div 2) * 12)))
                    [0..<nat ((number_of_years + block_size div 2 - 1)
                                div (block_size div 2))]
            \<and> calls' \<noteq> []
            \<and> call_rng (hd calls') = default_rng c seed_sequence"
    by (rule sizing_last_failure [OF cond bid pos fail later gen])
next
  assume h: "(\<forall>ml g. \<exists>df g'. nsproc_main c ml g = (Table df, g'))
          \<and> (\<forall>k. allocate c k = (if k < m then NoMemory else Allocated))
          \<and> 0 < number_of_years \<and> 0 < min number_of_years 1000 div 2 ^ m"
  show "\<exists>calls.
              sizing_phase c seed_sequence datetime_helper number_of_years
                = Some (calls, Inr (min number_of_years 1000 div 2 ^ m))
            \<and> map (\<lambda>x. (call_block_size x, call_block_id x, call_month_lengths x)) calls
                = map (\<lambda>k. (min number_of_years 1000 div 2 ^ k, 0,
                         py_slice (map n_hours datetime_helper) 0
                           (min number_of_years 1000 div 2 ^ k * 12))) [0..<m]
                  @ map (\<lambda>b. (min number_of_years 1000 div 2 ^ m, int b,
                           py_slice (map n_hours datetime_helper)
                             (int b * (min number_of_years 1000 div 2 ^ m) * 12)
                             ((int b + 1) * (min number_of_years 1000 div 2 ^ m) * 12)))
                      [0..<nat ((number_of_years + min number_of_years 1000 div 2 ^ m - 1)
                                  div (min number_of_years 1000 div 2 ^ m))]
            \<and> (\<forall>k\<le>m. call_rng (calls ! k) = default_rng c seed_sequence)"
    by (rule sizing_phase_trace) (use h in simp_all)
next
  assume h: "(\<forall>ml g. \<exists>df g'. nsproc_main c ml g = (Table df, g'))
          \<and> (\<forall>k. allocate c k = (if k < 3 then NoMemory else Allocated))
          \<and> length year_months = 10800"
  show "\<exists>calls.
              sizing_phase c seed_sequence year_months 900 = Some (calls, Inr 112)
            \<and> map call_block_size calls
                = [900, 450, 225, 112, 112, 112, 112, 112, 112, 112, 112, 112]
            \<and> map call_block_id calls = [0, 0, 0, 0, 1, 2, 3, 4, 5, 6, 7, 8]
            \<and> map (\<lambda>x. length (call_month_lengths x)) calls
                = [10800, 5400, 2700, 1344, 1344, 1344, 1344, 1344, 1344, 1344, 1344, 48]
            \<and> (\<forall>k\<le>3. call_rng (calls ! k) = default_rng c seed_sequence)"
    by (rule sizing_900_years) (use h in simp_all)
qed


text \<open>
  The theorem for 900 years of months with the allocation failing three times: the
  block sizes probed, and the block size the loop returns. And for 8 years, where the
  generator fails on the first block of 8 years and the allocation fails in the third
  pass, at block 1 of size 4: block sizes and block numbers probed, the generator of the
  fourth probe, and the block size returned.
\<close>

theorem sizing_halves_from_the_capped_run_length_witness:
  "map_option (\<lambda>(calls, result). (map call_block_size calls, result))
     (sizing_phase fails_three_times 0 (months_of_744_hours 10800) 900)
   = Some ([900, 450, 225, 112, 112, 112, 112, 112, 112, 112, 112, 112], Inr 112)
   \<and> map_option (\<lambda>(calls, result).
         (map (\<lambda>x. (call_block_size x, call_block_id x)) calls, call_rng (calls ! 3), result))
       (sizing_phase memory_for_four_years 0 (months_of_744_hours 96) 8)
     = Some ([(8, 0), (4, 0), (4, 1), (2, 0), (2, 1), (2, 2), (2, 3)], 0, Inr 2)"
proof -
  have h: "(\<forall>ml g. \<exists>df g'. nsproc_main fails_three_times ml g = (Table df, g'))
          \<and> (\<forall>k. allocate fails_three_times k = (if k < 3 then NoMemory else Allocated))
          \<and> length (months_of_744_hours 10800) = 10800"
    by (simp add: fails_three_times_def months_of_744_hours_def)
  from sizing_halves_from_the_capped_run_length
    [where c = fails_three_times and seed_sequence = 0
      and year_months = "months_of_744_hours 10800",
      THEN conjunct2, THEN conjunct2, THEN conjunct2, THEN mp, OF h]
  have first: "map_option (\<lambda>(calls, result). (map call_block_size calls, result))
     (sizing_phase fails_three_times 0 (months_of_744_hours 10800) 900)
   = Some ([900, 450, 225, 112, 112, 112, 112, 112, 112, 112, 112, 112], Inr 112)"
    by (elim exE conjE) simp
  let ?E = memory_for_four_years
  let ?dh = "months_of_744_hours 96"
  let ?H = "map n_hours ?dh"
  have gen: "nsproc_main ?E ml g
      = (if 48 < length ml then (RaisesMemoryError, g) else (Table [], Suc g))" for ml g
    by (simp add: memory_for_four_years_def)
  have al: "allocate ?E k = (if k = 2 then NoMemory else Allocated)" for k
    by (simp add: memory_for_four_years_def)
  have rng: "default_rng ?E seed = seed" for seed
    by (simp add: memory_for_four_years_def)
  have lenH: "length ?dh = 96" by (simp add: months_of_744_hours_def)
  have l0: "length (py_slice ?H 0 96) = 96"
    and l1: "length (py_slice ?H 0 48) = 48"
    and l2: "length (py_slice ?H 48 96) = 48"
    by (simp_all add: length_py_slice lenH)
  let ?c0 = "\<lparr>call_block_size = 8, call_block_id = 0,
              call_month_lengths = py_slice ?H 0 96, call_rng = 0::nat\<rparr>"
  let ?c1 = "\<lparr>call_block_size = 4, call_block_id = 0,
              call_month_lengths = py_slice ?H 0 48, call_rng = 0::nat\<rparr>"
  let ?c2 = "\<lparr>call_block_size = 4, call_block_id = 1,
              call_month_lengths = py_slice ?H 48 96, call_rng = Suc 0\<rparr>"
  have s0: "sizing_loop ?E 0 ?dh 8 0 8 0 0 [] = sizing_loop ?E 0 ?dh 8 (Suc 0) 4 0 0 [?c0]"
    using sizing_halves_from_the_capped_run_length
      [where c = ?E and block_id = 0 and block_size = 8
        and number_of_years = 8 and datetime_helper = ?dh and rng = 0 and attempt = 0
        and seed_sequence = 0 and calls = "[]", THEN conjunct1]
    by (simp add: gen rng l0)
  have s1: "sizing_loop ?E 0 ?dh 8 (Suc 0) 4 0 0 [?c0]
      = sizing_loop ?E 0 ?dh 8 (Suc (Suc 0)) 4 1 (Suc 0) [?c0, ?c1]"
    using sizing_loop_advance [where c = ?E and block_id = 0 and block_size = 4
        and number_of_years = 8 and datetime_helper = ?dh and rng = 0 and attempt = "Suc 0"
        and seed_sequence = 0 and calls = "[?c0]" and df = "[]" and rng' = "Suc 0"]
    by (simp add: gen al l1)
  have nb: "[0..<nat ((8 + 4 div 2 - 1) div (4 div 2 :: int))] = [0, 1, 2, 3]"
    by (simp add: upt_conv_Cons)
  have "\<exists>calls'. sizing_loop ?E 0 ?dh 8 (Suc (Suc 0)) 4 1 (Suc 0) [?c0, ?c1]
      = Some ([?c0, ?c1] @ \<lparr>call_block_size = 4, call_block_id = 1,
            call_month_lengths = py_slice ?H (1 * 4 * 12) ((1 + 1) * 4 * 12),
            call_rng = Suc 0\<rparr> # calls', Inr (4 div 2))
    \<and> map (\<lambda>x. (call_block_size x, call_block_id x, call_month_lengths x)) calls'
        = map (\<lambda>b. (4 div 2, int b,
                 py_slice ?H (int b * (4 div 2) * 12) ((int b + 1) * (4 div 2) * 12)))
            [0..<nat ((8 + 4 div 2 - 1) div (4 div 2))]
    \<and> calls' \<noteq> [] \<and> call_rng (hd calls') = default_rng ?E 0"
    by (rule sizing_halves_from_the_capped_run_length
        [THEN conjunct2, THEN conjunct1, THEN mp])
      (simp add: gen al l2)
  then obtain calls' where
    r: "sizing_loop ?E 0 ?dh 8 (Suc (Suc 0)) 4 1 (Suc 0) [?c0, ?c1]
          = Some ([?c0, ?c1, ?c2] @ calls', Inr 2)"
    and mp: "map (\<lambda>x. (call_block_size x, call_block_id x, call_month_lengths x)) calls'
        = map (\<lambda>b. (4 div 2, int b,
                 py_slice ?H (int b * (4 div 2) * 12) ((int b + 1) * (4 div 2) * 12)))
            [0, 1, 2, 3]"
    and ne: "calls' \<noteq> []" and hd: "call_rng (hd calls') = 0"
    unfolding nb by (auto simp: rng)
  have "map (\<lambda>x. (call_block_size x, call_block_id x)) calls'
      = map (\<lambda>(s, b, ml). (s, b))
          (map (\<lambda>x. (call_block_size x, call_block_id x, call_month_lengths x)) calls')"
    by (simp add: comp_def)
  also have "\<dots> = [(2, 0), (2, 1), (2, 2), (2, 3)]" unfolding mp by simp
  finally have pairs: "map (\<lambda>x. (call_block_size x, call_block_id x)) calls'
      = [(2, 0), (2, 1), (2, 2), (2, 3)]" .
  have "sizing_phase ?E 0 ?dh 8 = Some ([?c0, ?c1, ?c2] @ calls', Inr 2)"
    using s0 s1 r by (simp add: sizing_phase_def rng)
  moreover have "([?c0, ?c1, ?c2] @ calls') ! 3 = hd calls'"
    using ne by (simp add: nth_append hd_conv_nth)
  ultimately have second: "map_option (\<lambda>(calls, result).
         (map (\<lambda>x. (call_block_size x, call_block_id x)) calls, call_rng (calls ! 3), result))
       (sizing_phase ?E 0 ?dh 8)
     = Some ([(8, 0), (4, 0), (4, 1), (2, 0), (2, 1), (2, 2), (2, 3)], 0, Inr 2)"
    using pairs hd by simp
  from first second show ?thesis by (rule conjI)
qed

text \<open>
  Against claim C4 as stated: for a 900-year run in which the first three allocations
  fail, the block size the sizing loop settles on is 112, not 250, and it has probed
  twelve blocks, the first of 900 years, not 1000.
\<close>

theorem sizing_of_900_years_is_not_250:
  "map_option snd (sizing_phase fails_three_times 0 (months_of_744_hours 10800) 900)
     = Some (Inr 112)
   \<and> map_option (length \<circ> fst) (sizing_phase fails_three_times 0 (months_of_744_hours 10800) 900)
     = Some 12
   \<and> map_option (call_block_size \<circ> hd \<circ> fst)
       (sizing_phase fails_three_times 0 (months_of_744_hours 10800) 900) = Some 900"
proof -
  have gen: "\<And>ml g. \<exists>df g'. nsproc_main fails_three_times ml g = (Table df, g')"
    by (simp add: fails_three_times_def)
  have al: "\<And>k. allocate fails_three_times k = (if k < 3 then NoMemory else Allocated)"
    by (simp add: fails_three_times_def)
  have len: "length (months_of_744_hours 10800) = 10800"
    by (simp add: months_of_744_hours_def)
  from sizing_900_years [OF gen al len, of 0] show ?thesis
  proof (elim exE conjE)
    fix calls
    assume r: "sizing_phase fails_three_times 0 (months_of_744_hours 10800) 900
        = Some (calls, Inr 112)"
      and sizes: "map call_block_size calls
        = [900, 450, 225, 112, 112, 112, 112, 112, 112, 112, 112, 112]"
    from sizes have "length (map call_block_size calls) = 12" by simp
    then have l: "length calls = 12" by simp
    then have "calls \<noteq> []" by auto
    then have "call_block_size (hd calls) = hd (map call_block_size calls)"
      by (simp add: hd_map)
    then have "call_block_size (hd calls) = 900" using sizes by simp
    with r l show ?thesis by simp
  qed
qed

subsection \<open>A block size of zero\<close>

lemma sizing_loop_zero_block_size:
  fixes c :: "('seq, 'g) collaborators"
  assumes n: "0 < number_of_years"
    and gen: "\<And>ml g. fst (nsproc_main c ml g) \<noteq> RaisesOther"
    and al: "\<And>k. allocate c k \<noteq> OtherFailure"
  shows "sizing_loop c seed_sequence datetime_helper number_of_years attempt 0 block_id rng calls
           = None"
proof (rule ccontr)
  assume "sizing_loop c seed_sequence datetime_helper number_of_years attempt 0 block_id rng calls
            \<noteq> None"
  then obtain y where y: "sizing_loop c seed_sequence datetime_helper number_of_years attempt 0
      block_id rng calls = Some y"
    by blast
  have "c = c \<longrightarrow> number_of_years = number_of_years \<longrightarrow> (0::int) = 0 \<longrightarrow> False"
  proof (rule sizing_loop.raw_induct [where P = "\<lambda>c' s' dh' n' a' bs b' r' cs' y'.
      c' = c \<longrightarrow> n' = number_of_years \<longrightarrow> bs = 0 \<longrightarrow> False", OF _ y])
    fix loop :: "('seq, 'g) collaborators \<Rightarrow> 'seq \<Rightarrow> month_row list \<Rightarrow> int \<Rightarrow> nat \<Rightarrow> int \<Rightarrow> int
      \<Rightarrow> 'g \<Rightarrow> 'g generator_call list \<Rightarrow> ('g generator_call list \<times> (error + int)) option"
    fix c' s' dh' n' a' bs b' r' cs' y'
    assume 1: "\<And>c' s' dh' n' a' bs b' r' cs' y'. loop c' s' dh' n' a' bs b' r' cs' = Some y'
        \<Longrightarrow> c' = c \<longrightarrow> n' = number_of_years \<longrightarrow> bs = 0 \<longrightarrow> False"
      "(if b' * bs < n'
      then let idx1 = b' * bs * 12;
               idx2 = (b' + 1) * bs * 12;
               month_lengths = py_slice (map n_hours dh') idx1 idx2;
               calls' = cs' @ [\<lparr>call_block_size = bs, call_block_id = b',
                     call_month_lengths = month_lengths, call_rng = r'\<rparr>]
           in case nsproc_main c' month_lengths r' of
              (Table dummy1, rng') \<Rightarrow>
                (case allocate c' a' of
                  Allocated \<Rightarrow> loop c' s' dh' n' (Suc a') bs (b' + 1) rng' calls'
                | NoMemory \<Rightarrow> loop c' s' dh' n' (Suc a') (bs div 2) 0 (default_rng c' s') calls'
                | OtherFailure \<Rightarrow> Some (calls', Inl OtherError))
              | (RaisesMemoryError, rng') \<Rightarrow>
                  loop c' s' dh' n' (Suc a') (bs div 2) 0 (default_rng c' s') calls'
              | (RaisesOther, rng') \<Rightarrow> Some (calls', Inl OtherError)
      else Some (cs', Inr bs)) = Some y'"
    show "c' = c \<longrightarrow> n' = number_of_years \<longrightarrow> bs = 0 \<longrightarrow> False"
    proof (intro impI)
      assume eq: "c' = c" "n' = number_of_years" "bs = 0"
      let ?ml = "py_slice (map n_hours dh') 0 0"
      obtain t g' where g: "nsproc_main c ?ml r' = (t, g')" by (cases "nsproc_main c ?ml r'")
      have t: "t \<noteq> RaisesOther" using gen [of ?ml r'] g by simp
      show False
      proof (cases t)
        case (Table df)
        show ?thesis
        proof (cases "allocate c a'")
          case Allocated
          with 1(2) eq n g Table have "loop c s' dh' n' (Suc a') 0 (b' + 1) g'
              (cs' @ [\<lparr>call_block_size = 0, call_block_id = b', call_month_lengths = ?ml,
                         call_rng = r'\<rparr>]) = Some y'"
            by (simp add: Let_def)
          from 1(1) [OF this] eq show False by simp
        next
          case NoMemory
          with 1(2) eq n g Table have "loop c s' dh' n' (Suc a') 0 0 (default_rng c s')
              (cs' @ [\<lparr>call_block_size = 0, call_block_id = b', call_month_lengths = ?ml,
                         call_rng = r'\<rparr>]) = Some y'"
            by (simp add: Let_def)
          from 1(1) [OF this] eq show False by simp
        next
          case OtherFailure
          then show ?thesis using al [of a'] by simp
        qed
      next
        case RaisesMemoryError
        with 1(2) eq n g have "loop c s' dh' n' (Suc a') 0 0 (default_rng c s')
              (cs' @ [\<lparr>call_block_size = 0, call_block_id = b', call_month_lengths = ?ml,
                         call_rng = r'\<rparr>]) = Some y'"
          by (simp add: Let_def)
        from 1(1) [OF this] eq show False by simp
      next
        case RaisesOther
        then show ?thesis using t by simp
      qed
    qed
  qed
  then show False by simp
qed


lemma sizing_phase_never_returns:
  fixes c :: "('seq, 'g) collaborators"
  assumes gen: "\<And>ml g. \<exists>df g'. nsproc_main c ml g = (Table df, g')"
    and al: "\<And>k. allocate c k = NoMemory"
    and n: "0 < number_of_years"
  shows "sizing_phase c seed_sequence datetime_helper number_of_years = None"
proof -
  have zero: "min number_of_years 1000 div 2 ^ 10 = 0"
    using n by simp
  have "sizing_phase c seed_sequence datetime_helper number_of_years
      = sizing_loop c seed_sequence datetime_helper number_of_years 10
          (min number_of_years 1000 div 2 ^ 10) 0 (default_rng c seed_sequence)
          (map (\<lambda>k. \<lparr>call_block_size = min number_of_years 1000 div 2 ^ k, call_block_id = 0,
                       call_month_lengths =
                         py_slice (map n_hours datetime_helper) 0
                           (min number_of_years 1000 div 2 ^ k * 12),
                       call_rng = default_rng c seed_sequence\<rparr>) [0..<10])"
    unfolding sizing_phase_def
    by (rule sizing_failing_phase [OF gen al n order_refl])
  also have "\<dots> = None"
    unfolding zero
  proof (rule sizing_loop_zero_block_size [OF n])
    show "fst (nsproc_main c ml g) \<noteq> RaisesOther" for ml g
      using gen [of ml g] by auto
    show "allocate c k \<noteq> OtherFailure" for k
      using al [of k] by simp
  qed
  finally show ?thesis .
qed

text \<open>
  Claim C5. When every allocation fails, the block size of a one-year run is halved to
  zero, and from then on the condition of the loop (block id times zero is less than
  the number of years) never fails: the sizing loop does not return, and neither does
  the realisation. No sequence of outcomes that are memory failures or successes ends
  the loop once the block size is zero (\<open>sizing_loop_zero_block_size\<close>).
\<close>

theorem sizing_does_not_end_when_memory_always_fails:
  "sizing_phase fails_always seed_sequence datetime_helper 1 = None
   \<and> simulate_realisation fails_always seed_sequence realisation_id datetime_helper 1 1 = None"
proof -
  have "sizing_phase fails_always seed_sequence datetime_helper 1 = None"
    by (rule sizing_phase_never_returns) (simp_all add: fails_always_def)
  moreover have "initialise_discrete_rainfall_arrays 1 = Inr (replicate 744 0)"
    by (simp add: initialise_discrete_rainfall_arrays_def)
  ultimately show ?thesis by (simp add: simulate_realisation_def)
qed

subsection \<open>The random stream of a realisation\<close>

lemma discretise_by_point_other_realisation:
  "discretise_by_point fl rows df ts buf r2 =
     (case discretise_by_point fl rows df ts buf r1 of
        Inl e \<Rightarrow> Inl e
      | Inr (b, key, out) \<Rightarrow> Inr (b, (''point'', 1, r2), out))"
  by (simp add: discretise_by_point_def bind_err_def split: sum.splits prod.splits)

lemma simulating_loop_calls_independent:
  fixes c :: "('seq, 'g) collaborators"
  assumes y: "simulating_loop c r1 dh ts n bs b g buf calls w1 = Some y"
  shows "\<exists>res. simulating_loop c r2 dh ts n bs b g buf calls w2 = Some (fst y, res)"
proof -
  have "\<forall>w2. \<exists>res. simulating_loop c r2 dh ts n bs b g buf calls w2 = Some (fst y, res)"
  proof (rule simulating_loop.raw_induct [where P = "\<lambda>(c'::('seq, 'g) collaborators) rid dh' ts' n' bs' b' g' buf' calls' w' y'.
      \<forall>w2. \<exists>res. simulating_loop c' r2 dh' ts' n' bs' b' g' buf' calls' w2 = Some (fst y', res)",
      OF _ y])
    fix loop :: "('seq, 'g) collaborators \<Rightarrow> int \<Rightarrow> month_row list \<Rightarrow> real \<Rightarrow> int \<Rightarrow> int \<Rightarrow> int \<Rightarrow> 'g
      \<Rightarrow> real list \<Rightarrow> 'g generator_call list \<Rightarrow> ((string \<times> int \<times> int) \<times> real list) list
      \<Rightarrow> ('g generator_call list \<times> (error + ((string \<times> int \<times> int) \<times> real list) list)) option"
    fix c' :: "('seq, 'g) collaborators"
    fix rid dh' ts' n' bs' b' and g' :: 'g and buf' and calls' :: "'g generator_call list"
      and w' y'
    assume IH: "\<And>c' rid dh' ts' n' bs' b' g' buf' calls' w' y'.
        loop c' rid dh' ts' n' bs' b' g' buf' calls' w' = Some y'
        \<Longrightarrow> \<forall>w2. \<exists>res. simulating_loop c' r2 dh' ts' n' bs' b' g' buf' calls' w2 = Some (fst y', res)"
    let ?ml = "py_slice (map n_hours dh') (b' * bs' * 12) ((b' + 1) * bs' * 12)"
    let ?calls = "calls' @ [\<lparr>call_block_size = bs', call_block_id = b',
                     call_month_lengths = ?ml, call_rng = g'\<rparr>]"
    let ?dbp = "\<lambda>df r. discretise_by_point (nat (b' * bs' * 12))
                      (py_slice dh' (b' * bs' * 12) ((b' + 1) * bs' * 12)) df ts' buf' r"
    assume step: "(if b' * bs' < n'
      then let idx1 = b' * bs' * 12;
               idx2 = (b' + 1) * bs' * 12;
               month_lengths = py_slice (map n_hours dh') idx1 idx2;
               calls'' = calls' @ [\<lparr>call_block_size = bs', call_block_id = b',
                     call_month_lengths = month_lengths, call_rng = g'\<rparr>]
           in case nsproc_main c' month_lengths g' of
              (Table df, rng') \<Rightarrow>
                (case discretise_by_point (nat idx1) (py_slice dh' idx1 idx2) df ts' buf' rid of
                  Inl e \<Rightarrow> Some (calls'', Inl e)
                | Inr (buffer', output) \<Rightarrow>
                    loop c' rid dh' ts' n' bs' (b' + 1) rng' buffer' calls'' (w' @ [output]))
              | (RaisesMemoryError, rng') \<Rightarrow> Some (calls'', Inl MemoryError)
              | (RaisesOther, rng') \<Rightarrow> Some (calls'', Inl OtherError)
      else Some (calls', Inr w')) = Some y'"
    show "\<forall>w2. \<exists>res. simulating_loop c' r2 dh' ts' n' bs' b' g' buf' calls' w2 = Some (fst y', res)"
    proof
      fix w2
      show "\<exists>res. simulating_loop c' r2 dh' ts' n' bs' b' g' buf' calls' w2 = Some (fst y', res)"
      proof (cases "b' * bs' < n'")
        case False
        with step have "fst y' = calls'" by auto
        then show ?thesis using False by (subst simulating_loop.simps) simp
      next
        case True
        obtain t rng' where gen: "nsproc_main c' ?ml g' = (t, rng')"
          by (cases "nsproc_main c' ?ml g'")
        show ?thesis
        proof (cases t)
          case (Table df)
          show ?thesis
          proof (cases "?dbp df rid")
            case (Inl e)
            then have other: "?dbp df r2 = Inl e"
              using discretise_by_point_other_realisation [of _ _ df ts' buf' r2 rid] by simp
            from step True gen Table Inl have "fst y' = ?calls" by (auto simp: Let_def)
            then show ?thesis using True gen Table other
              by (subst simulating_loop.simps) (simp add: Let_def)
          next
            case (Inr v)
            then obtain buffer' key out where v: "?dbp df rid = Inr (buffer', key, out)"
              by (cases v) auto
            then have other: "?dbp df r2 = Inr (buffer', (''point'', 1, r2), out)"
              using discretise_by_point_other_realisation [of _ _ df ts' buf' r2 rid] by simp
            from step True gen Table v
            have "loop c' rid dh' ts' n' bs' (b' + 1) rng' buffer' ?calls (w' @ [(key, out)]) = Some y'"
              by (simp add: Let_def)
            from IH [OF this, rule_format, of "w2 @ [((''point'', 1, r2), out)]"]
            obtain res where "simulating_loop c' r2 dh' ts' n' bs' (b' + 1) rng' buffer' ?calls
                (w2 @ [((''point'', 1, r2), out)]) = Some (fst y', res)"
              by blast
            then show ?thesis using True gen Table other
              by (subst simulating_loop.simps) (simp add: Let_def)
          qed
        next
          case RaisesMemoryError
          with step True gen have "fst y' = ?calls" by (auto simp: Let_def)
          then show ?thesis using True gen RaisesMemoryError
            by (subst simulating_loop.simps) (simp add: Let_def)
        next
          case RaisesOther
          with step True gen have "fst y' = ?calls" by (auto simp: Let_def)
          then show ?thesis using True gen RaisesOther
            by (subst simulating_loop.simps) (simp add: Let_def)
        qed
      qed
    qed
  qed
  then show ?thesis by blast
qed

lemma simulating_loop_calls_equal:
  "map_option fst (simulating_loop c r1 dh ts n bs b g buf calls w1)
     = map_option fst (simulating_loop c r2 dh ts n bs b g buf calls w2)"
proof (cases "simulating_loop c r1 dh ts n bs b g buf calls w1")
  case None
  have "simulating_loop c r2 dh ts n bs b g buf calls w2 = None"
  proof (rule ccontr)
    assume "simulating_loop c r2 dh ts n bs b g buf calls w2 \<noteq> None"
    then obtain y where "simulating_loop c r2 dh ts n bs b g buf calls w2 = Some y" by blast
    from simulating_loop_calls_independent [OF this, of r1 w1] None show False by simp
  qed
  with None show ?thesis by simp
next
  case (Some y)
  from simulating_loop_calls_independent [OF Some, of r2 w2] Some show ?thesis by auto
qed


text \<open>
  Claim C6. The generator calls of a realisation, each with the state of the random
  generator it was handed, in the sizing loop and in the simulation loop, do not depend on
  the realisation id: two realisations of one run, which share the seed sequence, hand
  the raincell generator the same random stream.
\<close>

theorem realisations_share_one_random_stream:
  "map_option (\<lambda>r. (sizing_calls r, simulation_calls r))
     (simulate_realisation c seed_sequence realisation_id datetime_helper number_of_years
        timestep_length)
   = map_option (\<lambda>r. (sizing_calls r, simulation_calls r))
     (simulate_realisation c seed_sequence realisation_id' datetime_helper number_of_years
        timestep_length)"
proof (cases "initialise_discrete_rainfall_arrays timestep_length")
  case (Inl e)
  then show ?thesis by (simp add: simulate_realisation_def)
next
  case (Inr buffer)
  show ?thesis
  proof (cases "sizing_phase c seed_sequence datetime_helper number_of_years")
    case None
    with Inr show ?thesis by (simp add: simulate_realisation_def)
  next
    case (Some s)
    obtain probes res where s: "s = (probes, res)" by (cases s)
    show ?thesis
    proof (cases res)
      case (Inl e)
      with Inr Some s show ?thesis by (simp add: simulate_realisation_def)
    next
      case (Inr block_size)
      let ?run = "\<lambda>rid. simulating_loop c rid datetime_helper timestep_length number_of_years
          block_size 0 (default_rng c seed_sequence) buffer [] []"
      have eq: "map_option fst (?run realisation_id) = map_option fst (?run realisation_id')"
        by (rule simulating_loop_calls_equal)
      have unfold: "map_option (\<lambda>r. (sizing_calls r, simulation_calls r))
          (simulate_realisation c seed_sequence rid datetime_helper number_of_years
             timestep_length)
          = map_option (\<lambda>calls. (probes, calls)) (map_option fst (?run rid))" for rid
        using \<open>initialise_discrete_rainfall_arrays timestep_length = Inr buffer\<close> Some s Inr
        by (cases "?run rid") (auto simp: simulate_realisation_def)
      show ?thesis unfolding unfold eq ..
    qed
  qed
qed


text \<open>
  A run of one year of months with nothing failing: the sizing loop and the simulation
  loop both hand the generator the state made from the seed sequence, whatever the
  realisation id, and the first block ends the simulation at the call of the kernel.
\<close>

lemma simulating_loop_raises:
  assumes "block_id * block_size < number_of_years"
    and "nsproc_main c (py_slice (map n_hours datetime_helper) (block_id * block_size * 12)
           ((block_id + 1) * block_size * 12)) rng = (Table df, rng')"
    and "discretise_by_point (nat (block_id * block_size * 12))
           (py_slice datetime_helper (block_id * block_size * 12)
              ((block_id + 1) * block_size * 12)) df timestep_length buffer realisation_id
         = Inl e"
  shows "simulating_loop c realisation_id datetime_helper timestep_length number_of_years
           block_size block_id rng buffer calls written
         = Some (calls @ [\<lparr>call_block_size = block_size, call_block_id = block_id,
                       call_month_lengths = py_slice (map n_hours datetime_helper)
                         (block_id * block_size * 12) ((block_id + 1) * block_size * 12),
                       call_rng = rng\<rparr>], Inl e)"
  using assms by (subst simulating_loop.simps) (simp add: Let_def)

lemma one_year_realisation:
  "simulate_realisation never_fails 7 realisation_id (months_of_744_hours 12) 1 1
     = Some \<lparr>sizing_calls = [\<lparr>call_block_size = 1, call_block_id = 0,
                call_month_lengths = replicate 12 744, call_rng = 7\<rparr>],
             simulation_calls = [\<lparr>call_block_size = 1, call_block_id = 0,
                call_month_lengths = replicate 12 744, call_rng = 7\<rparr>],
             outcome = Inl TypeError\<rparr>"
proof -
  let ?row = "\<lparr>year = 0, month = 1, n_timesteps = 744, start_time = 0, end_time = 744\<rparr>"
  let ?call = "\<lparr>call_block_size = 1, call_block_id = 0,
                call_month_lengths = replicate 12 744, call_rng = 7::nat\<rparr>"
  have months: "py_slice (map n_hours (months_of_744_hours 12)) 0 12 = replicate 12 744"
    by (simp add: py_slice_def Let_def months_of_744_hours_def n_hours_def)
  have rows: "py_slice (months_of_744_hours 12) 0 12 = ?row # replicate 11 ?row"
    by (simp add: py_slice_def Let_def months_of_744_hours_def numeral_eq_Suc)
  have gen: "nsproc_main never_fails ml g = (Table [], Suc g)" for ml g
    by (simp add: never_fails_def)
  have al: "allocate never_fails k = Allocated" for k
    by (simp add: never_fails_def)
  have "sizing_phase never_fails 7 (months_of_744_hours 12) 1
      = sizing_loop never_fails 7 (months_of_744_hours 12) 1 (Suc 0) 1 (0 + 1) (Suc 7) ([] @ [?call])"
    unfolding sizing_phase_def
    using sizing_loop_advance [of 0 1 1 never_fails "months_of_744_hours 12" 7 "[]" "Suc 7" 0 7 "[]",
        OF _ gen al]
    by (simp add: months never_fails_def)
  also have "\<dots> = Some ([?call], Inr 1)"
    by (subst sizing_loop_done) simp_all
  finally have sizing: "sizing_phase never_fails 7 (months_of_744_hours 12) 1
      = Some ([?call], Inr 1)" .
  have "discretise_by_point (nat (0 * 1 * 12))
      (py_slice (months_of_744_hours 12) (0 * 1 * 12) ((0 + 1) * 1 * 12)) [] 1 buffer
      realisation_id = Inl TypeError" for buffer
    by (simp add: rows discretise_by_point_raises)
  from simulating_loop_raises [of 0 1 1 never_fails "months_of_744_hours 12" 7 "[]" "Suc 7",
      OF _ gen this]
  have sim: "simulating_loop never_fails realisation_id (months_of_744_hours 12) 1 1 1 0 7
      buffer [] [] = Some ([?call], Inl TypeError)" for buffer
    by (simp add: months)
  have start: "default_rng never_fails 7 = 7" by (simp add: never_fails_def)
  show ?thesis
    by (simp add: simulate_realisation_def initialise_discrete_rainfall_arrays_def sizing
        sim start)
qed


subsection \<open>Catchment averages\<close>

lemma weighted_mean_of_weighted_points_eq:
  assumes "length row = length weights"
  shows "weighted_mean_of_weighted_points row weights
           = sum_list (map2 (*) row weights) / sum_list weights"
proof -
  have a: "sum_list (map (\<lambda>(v, w). v * w) (filter (\<lambda>(v, w). w \<noteq> 0) (zip row weights)))
      = sum_list (map (\<lambda>(v, w). v * w) (zip row weights))"
    by (rule sum_list_map_filter) auto
  have b: "sum_list (map snd (filter (\<lambda>(v, w). w \<noteq> 0) (zip row weights)))
      = sum_list (map snd (zip row weights))"
    by (rule sum_list_map_filter) auto
  have c: "map snd (zip row weights) = weights" using assms by (rule map_snd_zip)
  show ?thesis
    unfolding weighted_mean_of_weighted_points_def Let_def a b c ..
qed

text \<open>
  The averaging expression on its own. For a catchment whose weights are in the
  metadata, aligned with the columns of the grid buffer and non-negative, it is an error
  exactly when the weights sum to zero, which is when every weight is zero, and the
  error is ZeroDivisionError; otherwise it is, for every timestep, the weighted mean of
  the values of the points of non-zero weight (the month's timesteps of it are kept).
\<close>

lemma catchment_output_array_weighted_mean:
  assumes found: "catchment_weights location_id = Some weights"
    and aligned: "\<forall>row\<in>set grid_rainfall. length row = length weights"
    and nonneg: "\<forall>w\<in>set weights. 0 \<le> w"
  shows "((\<exists>e. catchment_output_array grid_rainfall catchment_weights location_id
                 timesteps_in_month = Inl e) \<longleftrightarrow> sum_list weights = 0)
       \<and> (sum_list weights = 0 \<longleftrightarrow> (\<forall>w\<in>set weights. w = 0))
       \<and> (sum_list weights = 0 \<longrightarrow>
            catchment_output_array grid_rainfall catchment_weights location_id
              timesteps_in_month = Inl ZeroDivisionError)
       \<and> (sum_list weights \<noteq> 0 \<longrightarrow>
            catchment_output_array grid_rainfall catchment_weights location_id
              timesteps_in_month
            = Inr (take timesteps_in_month
                     (map (\<lambda>row. weighted_mean_of_weighted_points row weights) grid_rainfall)))"
proof -
  have shape: "\<not> list_ex (\<lambda>row. length row \<noteq> length weights) grid_rainfall"
    using aligned by (simp add: list_ex_iff)
  have means: "map (\<lambda>row. sum_list (map2 (*) row weights) / sum_list weights) grid_rainfall
      = map (\<lambda>row. weighted_mean_of_weighted_points row weights) grid_rainfall"
    using aligned by (simp add: weighted_mean_of_weighted_points_eq)
  have zero: "catchment_output_array grid_rainfall catchment_weights location_id
      timesteps_in_month = Inl ZeroDivisionError" if "sum_list weights = 0"
    using that found shape
    by (simp add: catchment_output_array_def np_average_axis1_def bind_err_def)
  have nonzero: "catchment_output_array grid_rainfall catchment_weights location_id
      timesteps_in_month
      = Inr (take timesteps_in_month
               (map (\<lambda>row. weighted_mean_of_weighted_points row weights) grid_rainfall))"
    if "sum_list weights \<noteq> 0"
  proof -
    have "np_average_axis1 grid_rainfall weights
        = Inr (map (\<lambda>row. sum_list (map2 (*) row weights) / sum_list weights) grid_rainfall)"
      using that shape by (simp add: np_average_axis1_def Let_def)
    then show ?thesis
      by (simp only: catchment_output_array_def found option.case bind_err_def sum.case means)
  qed
  have all0: "sum_list weights = 0 \<longleftrightarrow> (\<forall>w\<in>set weights. w = 0)"
    using nonneg by (intro sum_list_nonneg_eq_0_iff) simp
  show ?thesis using zero nonzero all0 by (cases "sum_list weights = 0") auto
qed

text \<open>The expression at two timesteps and three points, the third of weight zero.\<close>

lemma catchment_output_array_example:
  "catchment_output_array [[1, 3, 5], [2, 4, 6]] [(1::nat) \<mapsto> [1, 3, 0]] 1 2
     = Inr [5 / 2, 7 / 2]"
proof -
  have found: "[(1::nat) \<mapsto> [1, 3, 0::real]] 1 = Some [1, 3, 0]" by simp
  have aligned: "\<forall>row\<in>set [[1, 3, 5], [2, 4, 6::real]]. length row = length [1, 3, 0::real]"
    by simp
  have nonneg: "\<forall>w\<in>set [1, 3, 0::real]. 0 \<le> w" by simp
  have nz: "sum_list [1, 3, 0::real] \<noteq> 0" by simp
  from catchment_output_array_weighted_mean
    [where catchment_weights = "[(1::nat) \<mapsto> [1, 3, 0]]" and location_id = 1
      and weights = "[1, 3, 0]" and grid_rainfall = "[[1, 3, 5], [2, 4, 6]]"
      and timesteps_in_month = 2, OF found aligned nonneg,
      THEN conjunct2, THEN conjunct2, THEN conjunct2, THEN mp, OF nz]
  show ?thesis by (simp add: weighted_mean_of_weighted_points_def)
qed

lemma discretise_spatial_call_thirteen:
  "discretise_spatial_call [a1, a2, a3, a4, a5, a6, a7, a8, a9, a10, a11, a12, a13]
     = Inl TypeError"
  by (simp add: discretise_spatial_call_def)

lemma discretise_by_point_spatial_raises:
  assumes "season_definitions (month row) = Some season"
    and "grid_phi metadata season = Some phi"
  shows "discretise_by_point_spatial 0 (row # rows) season_definitions df timestep_length
           grid_rainfall metadata catchment_names realisation_id = Inl TypeError"
proof -
  have "[0..<length (row # rows)] = 0 # [Suc 0..<Suc (length rows)]"
    by (simp add: upt_conv_Cons del: upt_Suc)
  then show ?thesis
    using assms
    by (simp add: discretise_by_point_spatial_def discretise_month_spatial_def by_label_def
        discretise_spatial_call_thirteen bind_err_def del: upt_Suc)
qed

lemma spatial_kernel_on_scenario:
  "discretise_spatial_call
     [Float 0, Float 1, Array [0], Array [3 / 2], Array [2], Matrix [[0, 0], [0, 0]],
      Array [0], Array [0], Array [1], Array [0, 2], Array [0, 0], Array [1, 1]]
     = Inr [[2, 0], [1, 0]]"
  by (simp add: discretise_spatial_call_def as_float_def as_array_def as_matrix_def
      discretise_spatial_def discretise_location_def elementwise_def
      boolean_index_def get_column_def set_column_def bind_err_def discretise_point_def
      discretise_raincell_def accumulate_def upto_rec1 upt_conv_Cons Let_def del: upt_Suc)

lemma catchment_average_on_scenario:
  "catchment_output_array [[2, 0], [1, 0]] [(1::nat) \<mapsto> [1, 3]] 1 2 = Inr [1 / 2, 1 / 4]"
  by (simp add: catchment_output_array_def np_average_axis1_def bind_err_def)

text \<open>
  Claim C7. In \<^verbatim>\<open>discretise_by_point\<close> the catchment average is not reached, whatever
  the weights: in every iteration of the month loop the call of the spatial kernel at
  lines 567--574 comes first, and it passes thirteen arguments to a function of twelve
  parameters. For one month of two timesteps, one raincell, a grid of two points and one
  catchment with weights 1 and 3, of sum 4, the function raises TypeError: an error
  although the total weight is not zero, and no weighted mean. (The kernel called with
  its own twelve parameters fills the grid buffer, and the averaging expression on that
  buffer gives the weighted means 1/2 and 1/4, see \<open>spatial_kernel_on_scenario\<close> and
  \<open>catchment_average_on_scenario\<close>.)
\<close>

theorem catchment_average_is_not_reached:
  "discretise_by_point_spatial 0
     [\<lparr>year = 2000, month = 1, n_timesteps = 2, start_time = 0, end_time = 2\<rparr>]
     [1 \<mapsto> 1]
     [\<lparr>raincell_arrival = 0, raincell_end = 3 / 2, raincell_intensity = 2,
       raincell_x = 0, raincell_y = 0, raincell_radius = 1\<rparr>]
     1 [[0, 0], [0, 0]]
     \<lparr>grid_x = [0, 2], grid_y = [0, 0], grid_phi = [1 \<mapsto> [1, 1]],
      weights_by_catchment = [1 \<mapsto> [1, 3]]\<rparr>
     [1] 1 = Inl TypeError
   \<and> map_option sum_list
       (weights_by_catchment
          \<lparr>grid_x = [0, 2], grid_y = [0, 0], grid_phi = [1 \<mapsto> [1, 1]],
           weights_by_catchment = [1 \<mapsto> [1, 3]]\<rparr> 1) = Some 4"
proof
  show "discretise_by_point_spatial 0
     [\<lparr>year = 2000, month = 1, n_timesteps = 2, start_time = 0, end_time = 2\<rparr>]
     [1 \<mapsto> 1]
     [\<lparr>raincell_arrival = 0, raincell_end = 3 / 2, raincell_intensity = 2,
       raincell_x = 0, raincell_y = 0, raincell_radius = 1\<rparr>]
     1 [[0, 0], [0, 0]]
     \<lparr>grid_x = [0, 2], grid_y = [0, 0], grid_phi = [1 \<mapsto> [1, 1]],
      weights_by_catchment = [1 \<mapsto> [1, 3]]\<rparr>
     [1] 1 = Inl TypeError"
    by (rule discretise_by_point_spatial_raises [where season = 1 and phi = "[1, 1]"]) simp_all
  show "map_option sum_list
       (weights_by_catchment
          \<lparr>grid_x = [0, 2], grid_y = [0, 0], grid_phi = [1 \<mapsto> [1, 1]],
           weights_by_catchment = [1 \<mapsto> [1, 3]]\<rparr> 1) = Some 4"
    by simp
qed

subsection \<open>Domain bounds\<close>

text \<open>
  Claim C8. With a grid descriptor and no point table the domain bounds are not
  returned: the limits of the grid are computed and never assigned to the bounds, which
  are read unassigned. (With points, alone or with a grid, the bounds come out rounded
  outwards, as the two examples after the theorem show.)
\<close>

theorem grid_without_points_is_unbound:
  "identify_domain_bounds (Some g) cell_size None = Inl UnboundLocalError"
  by (simp add: identify_domain_bounds_def)

lemma no_grid_no_points_is_unbound:
  "identify_domain_bounds None cell_size None = Inl UnboundLocalError"
  by (simp add: identify_domain_bounds_def)

lemma bounds_of_points:
  "identify_domain_bounds None 1000
     (Some (\<lparr>easting = 1500, northing = 2500\<rparr>, [\<lparr>easting = 3200, northing = 700\<rparr>]))
   = Inr (1000, 0, 4000, 3000)"
  by (simp add: identify_domain_bounds_def column_min_def column_max_def round_down_def
      round_up_def)

lemma bounds_of_grid_and_points:
  "identify_domain_bounds
     (Some \<lparr>xllcorner = 0, yllcorner = 0, ncols = 5, nrows = 2, cellsize = 1000\<rparr>) 1000
     (Some (\<lparr>easting = 1500, northing = 2500\<rparr>, [\<lparr>easting = 3200, northing = 700\<rparr>]))
   = Inr (0, 0, 5000, 3000)"
  by (simp add: identify_domain_bounds_def column_min_def column_max_def round_down_def
      round_up_def grid_limits_def)

subsection \<open>Variogram bins\<close>

lemma sqrt_quarter: "sqrt (1 / 4) = 1 / 2"
  by (rule real_sqrt_unique) (simp_all add: power2_eq_square)


lemma bin_count:
  assumes "0 < (d::real)"
  shows "(d + 1 / 10) / (d / 7) = 7 + (7 / 10) / d"
  using assms by (simp add: field_simps)

lemma upt_0_8: "[0..<8] = [0, 1, 2, 3, 4, 5, 6, 7]" by code_simp

lemma upt_0_7: "[0..<7] = [0, 1, 2, 3, 4, 5, 6]" by code_simp

lemma far_points_give_seven_bins:
  assumes mx: "np_max (pdist df1) = Inr max_distance" and far: "7 / 10 \<le> max_distance"
  shows "calculate_bin_edges df1 7
           = Inr (map (\<lambda>i. real i * (max_distance / 7)) [0..<7] @ [max_distance + 1 / 10])"
proof -
  have pos: "0 < max_distance" using far by simp
  have "(7 / 10) / max_distance \<le> 1" using far pos by (simp add: field_simps)
  moreover have "0 < (7 / 10) / max_distance" using pos by simp
  ultimately have "\<lceil>(max_distance + 1 / 10) / (max_distance / 7)\<rceil> = 8"
    unfolding bin_count [OF pos] by (intro ceiling_unique) simp_all
  then have n: "nat \<lceil>(max_distance + 1 / 10 - 0) / (max_distance / 7)\<rceil> = 8" by simp
  have step: "max_distance / 7 \<noteq> 0" using pos by simp
  have ar: "np_arange 0 (max_distance + 1 / 10) (max_distance / 7)
      = Inr (map (\<lambda>i. 0 + real i * (max_distance / 7)) [0..<8])"
    unfolding np_arange_def n using step by (simp only: if_False)
  have "calculate_bin_edges df1 7
      = Inr ((map (\<lambda>i. 0 + real i * (max_distance / 7)) [0..<8])
               [length (map (\<lambda>i. 0 + real i * (max_distance / 7)) [0..<8]) - 1
                  := max_distance + 1 / 10])"
    unfolding calculate_bin_edges_def mx bind_err_def Let_def
    by (simp only: sum.case of_nat_numeral ar) simp
  also have "\<dots> = Inr (map (\<lambda>i. real i * (max_distance / 7)) [0..<7] @ [max_distance + 1 / 10])"
    by (simp add: upt_0_8 upt_0_7)
  finally show ?thesis .
qed

lemma close_points_give_more_bins:
  assumes mx: "np_max (pdist df1) = Inr max_distance"
    and close: "0 < max_distance" "max_distance < 7 / 10"
  shows "\<exists>bin_edges. calculate_bin_edges df1 7 = Inr bin_edges \<and> 9 \<le> length bin_edges"
proof -
  have "1 < (7 / 10) / max_distance" using close by (simp add: field_simps)
  then have "8 < (max_distance + 1 / 10) / (max_distance / 7)"
    unfolding bin_count [OF close(1)] by simp
  then have "8 < \<lceil>(max_distance + 1 / 10) / (max_distance / 7)\<rceil>"
    by (simp add: less_ceiling_iff)
  then have n: "9 \<le> nat \<lceil>(max_distance + 1 / 10 - 0) / (max_distance / 7)\<rceil>"
    by simp linarith
  define k where "k = nat \<lceil>(max_distance + 1 / 10 - 0) / (max_distance / 7)\<rceil>"
  have step: "max_distance / 7 \<noteq> 0" using close by simp
  have ar: "np_arange 0 (max_distance + 1 / 10) (max_distance / 7)
      = Inr (map (\<lambda>i. 0 + real i * (max_distance / 7)) [0..<k])"
    unfolding np_arange_def k_def using step by (simp only: if_False)
  have k: "9 \<le> k" using n by (simp add: k_def)
  then have ne: "map (\<lambda>i. 0 + real i * (max_distance / 7)) [0..<k] \<noteq> []" by auto
  have "calculate_bin_edges df1 7
      = Inr ((map (\<lambda>i. 0 + real i * (max_distance / 7)) [0..<k])
               [length (map (\<lambda>i. 0 + real i * (max_distance / 7)) [0..<k]) - 1
                  := max_distance + 1 / 10])"
    unfolding calculate_bin_edges_def mx bind_err_def Let_def
    using ne by (simp only: sum.case of_nat_numeral ar) simp
  then show ?thesis using k by simp
qed


lemma drop_empty_bins_keeps_counted:
  assumes "length bin_centres = length counts" and "length gamma = length counts"
  shows "drop_empty_bins bin_centres gamma counts
           = Inr (map fst (filter (\<lambda>(c, n). n > 0) (zip bin_centres counts)),
                  map fst (filter (\<lambda>(g, n). n > 0) (zip gamma counts)))"
proof -
  have "map fst (filter snd (zip xs (map (\<lambda>n. n > 0) counts)))
      = map fst (filter (\<lambda>(x, n). n > 0) (zip xs counts))" for xs :: "real list"
    by (induction xs counts rule: list_induct2') simp_all
  then show ?thesis using assms
    by (simp add: drop_empty_bins_def boolean_index_def bind_err_def)
qed

text \<open>
  Claim C9. Two calibration points half a unit apart: the interval is 1/14, the range
  up to 0.5 + 0.1 holds nine edges, the last of which is moved to 0.6, so the distances
  are binned into eight intervals, not seven, and the maximum distance falls into the
  eighth, from 0.5 to 0.6. (Seven bins come out exactly when the maximum distance is at
  least 0.7, see \<open>far_points_give_seven_bins\<close> and \<open>close_points_give_more_bins\<close>.)
\<close>

theorem close_points_give_eight_bins:
  "calculate_bin_edges [\<lparr>easting = 0, northing = 0\<rparr>, \<lparr>easting = 1 / 2, northing = 0\<rparr>] 7
     = Inr [0, 1 / 14, 1 / 7, 3 / 14, 2 / 7, 5 / 14, 3 / 7, 1 / 2, 3 / 5]"
  by (simp add: calculate_bin_edges_def np_max_def np_arange_def bind_err_def sqrt_quarter
      upt_0_9 Let_def)


end
